theory Spec2Isabelle
  imports Complex_Main "HOL-Library.Multiset"
begin

section \<open>Python values used by the pipeline\<close>

text \<open>
  A Python \<open>str\<close> is a sequence of Unicode code points, and \<open>len\<close> counts code points.
  A string is therefore modelled as the list of its code points; \<open>py\<close> writes a literal.
\<close>

type_synonym pystr = "nat list"

definition py :: "string \<Rightarrow> pystr" where
  "py s = map of_char s"

datatype py_error = ValueError | TypeError | IndexError | DatabaseError | ValidationError

text \<open>
  \<open>str.isspace\<close> for one code point: the ASCII controls 9-13 and 28-31, the space,
  and the Unicode white space characters U+0085, U+00A0, U+1680, U+2000-U+200A, U+2028,
  U+2029, U+202F, U+205F and U+3000.
\<close>

definition isspace :: "nat \<Rightarrow> bool" where
  "isspace c \<longleftrightarrow>
     (9 \<le> c \<and> c \<le> 13) \<or> (28 \<le> c \<and> c \<le> 32) \<or> c = 133 \<or> c = 160 \<or> c = 5760 \<or>
     (8192 \<le> c \<and> c \<le> 8202) \<or> c = 8232 \<or> c = 8233 \<or> c = 8239 \<or> c = 8287 \<or> c = 12288"

definition lstrip :: "pystr \<Rightarrow> pystr" where
  "lstrip s = dropWhile isspace s"

definition rstrip :: "pystr \<Rightarrow> pystr" where
  "rstrip s = rev (dropWhile isspace (rev s))"

text \<open>\<open>s.strip()\<close> without argument removes leading and trailing white space.\<close>

definition strip :: "pystr \<Rightarrow> pystr" where
  "strip s = rstrip (lstrip s)"

text \<open>\<open>sep.join(xs)\<close>.\<close>

fun join :: "pystr \<Rightarrow> pystr list \<Rightarrow> pystr" where
  "join sep [] = []"
| "join sep [x] = x"
| "join sep (x # y # ys) = x @ sep @ join sep (y # ys)"

text \<open>
  \<open>s.split(sep)\<close> cuts at every occurrence of \<open>sep\<close>, scanning from the left without
  overlap; \<open>acc\<close> is the piece under construction. An empty separator raises ValueError.
\<close>

function split_from :: "pystr \<Rightarrow> pystr \<Rightarrow> pystr \<Rightarrow> pystr list" where
  "split_from sep acc [] = [acc]"
| "split_from sep acc (c # cs) =
     (if sep \<noteq> [] \<and> take (length sep) (c # cs) = sep
      then acc # split_from sep [] (drop (length sep) (c # cs))
      else split_from sep (acc @ [c]) cs)"
  by pat_completeness auto
termination
  by (relation "measure (\<lambda>(sep, acc, s). length s)") auto

definition split :: "pystr \<Rightarrow> pystr \<Rightarrow> py_error + pystr list" where
  "split s sep = (if sep = [] then Inl ValueError else Inr (split_from sep [] s))"

section \<open>Text chunker (ProcessController)\<close>

record document =
  page_content :: pystr
  doc_metadata :: "(pystr \<times> pystr) list"

text \<open>
  The comprehension building \<open>lines\<close>: every piece of the split is trimmed, and kept when
  the trimmed piece has more than one character.
\<close>

definition trimmed_lines :: "pystr list \<Rightarrow> pystr list" where
  "trimmed_lines docs = map strip (filter (\<lambda>doc. length (strip doc) > 1) docs)"

text \<open>
  The \<open>for line in lines\<close> loop, on the pair of \<open>chunks\<close> and \<open>current_chunk\<close>.
\<close>

fun chunk_loop :: "int \<Rightarrow> pystr \<Rightarrow> pystr list \<Rightarrow> document list \<times> pystr \<Rightarrow> document list \<times> pystr" where
  "chunk_loop chunk_size splitter_tag [] (chunks, current_chunk) = (chunks, current_chunk)"
| "chunk_loop chunk_size splitter_tag (line # lines) (chunks, current_chunk) =
     (let current_chunk = current_chunk @ line @ splitter_tag in
      if int (length current_chunk) \<ge> chunk_size
      then chunk_loop chunk_size splitter_tag lines
             (chunks @ [\<lparr>page_content = strip current_chunk, doc_metadata = []\<rparr>], [])
      else chunk_loop chunk_size splitter_tag lines (chunks, current_chunk))"

definition process_simpler_splitter ::
  "pystr list \<Rightarrow> (pystr \<times> pystr) list list \<Rightarrow> int \<Rightarrow> pystr \<Rightarrow> py_error + document list" where
  "process_simpler_splitter texts metadatas chunk_size splitter_tag =
     (let full_text = join (py '' '') texts in
      case split full_text splitter_tag of
        Inl e \<Rightarrow> Inl e
      | Inr docs \<Rightarrow>
          (let lines = trimmed_lines docs;
               (chunks, current_chunk) = chunk_loop chunk_size splitter_tag lines ([], [])
           in if int (length current_chunk) \<ge> 0
              then Inr (chunks @ [\<lparr>page_content = strip current_chunk, doc_metadata = []\<rparr>])
              else Inr chunks))"

section \<open>Collection names (NLPController)\<close>

text \<open>
  \<open>str\<close> of a Python integer, as the f-string renders it: decimal digits, with a minus
  sign (code point 45) for negative numbers.
\<close>

function str_nat :: "nat \<Rightarrow> pystr" where
  "str_nat n = (if n < 10 then [48 + n] else str_nat (n div 10) @ [48 + n mod 10])"
  by pat_completeness auto
termination
  by (relation "measure id") auto

definition str_int :: "int \<Rightarrow> pystr" where
  "str_int i = (if i < 0 then 45 # str_nat (nat (- i)) else str_nat (nat i))"

definition create_collection_name :: "int \<Rightarrow> int \<Rightarrow> pystr" where
  "create_collection_name default_vector_size project_id =
     strip (py ''Collection_'' @ str_int default_vector_size @ py ''_'' @ str_int project_id)"

section \<open>Vector stores\<close>

text \<open>
  Embedding vectors are lists of numbers. The similarity arithmetic itself is done by
  the stores (pgvector's operator \<open><=>\<close>, Qdrant's scorer) and is not part of the
  repository: it enters the model as a parameter, so that every statement below holds for
  whatever those operators compute.
\<close>

type_synonym vector = "real list"

datatype distance = COSINE | DOT

record similarity =
  cosine_distance :: "vector \<Rightarrow> vector \<Rightarrow> real"
  qdrant_score :: "distance option \<Rightarrow> vector \<Rightarrow> vector \<Rightarrow> real"

text \<open>
  The metadata of one record: \<open>None\<close>, a dictionary, or (the Qdrant default
  \<open>list(range(0, len(texts)))\<close>) an integer.
\<close>

datatype py_metadata = MetaNone | MetaDict "(pystr \<times> pystr) list" | MetaInt int

record retrieved_document =
  rd_text :: pystr
  rd_score :: real

text \<open>
  What \<open>search_by_vector\<close> hands back: \<open>False\<close>, \<open>None\<close> or a list of documents;
  \<open>truthy\<close> is the test \<open>if results\<close>.
\<close>

datatype search_result = PyFalse | PyNone | Docs "retrieved_document list"

fun truthy :: "search_result \<Rightarrow> bool" where
  "truthy PyFalse = False"
| "truthy PyNone = False"
| "truthy (Docs ds) = (ds \<noteq> [])"

text \<open>
  \<open>range(0, n, step)\<close> as the list of batch offsets: a zero step raises ValueError, a
  negative step gives no offset at all.
\<close>

definition batch_offsets :: "nat \<Rightarrow> int \<Rightarrow> py_error + nat list" where
  "batch_offsets n batch_size =
     (if batch_size = 0 then Inl ValueError
      else if batch_size < 0 then Inr []
      else Inr (map (\<lambda>k. k * nat batch_size) [0 ..< (n + nat batch_size - 1) div nat batch_size]))"

text \<open>The slice \<open>xs[i : i + batch_size]\<close> for an offset \<open>i\<close> and a positive size.\<close>

definition batch_slice :: "nat \<Rightarrow> int \<Rightarrow> 'a list \<Rightarrow> 'a list" where
  "batch_slice i batch_size xs = take (nat batch_size) (drop i xs)"

subsection \<open>PGVectorProvider\<close>

text \<open>
  The PostgreSQL database holds one table per collection. A table has its rows (with the
  \<open>bigserial\<close> key \<open>id\<close>, drawn from a sequence that starts at 1), the declared vector
  dimension, and at most one vector index, recorded as the pair of index type and
  operator class. The model follows the statements the provider issues. Every error
  raised for a statement (by the driver or by PostgreSQL) is the one value
  \<open>DatabaseError\<close>: a statement on a missing table, a negative \<open>LIMIT\<close>, an \<open>INSERT\<close>
  executed with an empty parameter list or with a row the table does not accept, and a
  \<open>CREATE INDEX\<close> that pgvector refuses.
\<close>

record pg_row =
  row_id :: nat
  row_text :: pystr
  row_vector :: vector
  row_metadata :: py_metadata
  row_chunk_id :: int

record pg_table =
  table_rows :: "pg_row list"
  next_id :: nat
  vector_dim :: int
  vector_index :: "(pystr \<times> pystr) option"

type_synonym pg_db = "pystr \<rightharpoonup> pg_table"

record pg_provider =
  pg_default_vector_size :: int
  pg_distance_method :: "pystr option"
  pg_index_threshold :: int


definition pg_is_collection_existed :: "pg_db \<Rightarrow> pystr \<Rightarrow> bool" where
  "pg_is_collection_existed db collection_name = (db collection_name \<noteq> None)"

text \<open>
  The \<open>record_count\<close> entry of \<open>get_collection_info\<close> (\<open>SELECT COUNT(*)\<close>); the
  method returns \<open>None\<close> for a table that does not exist.
\<close>

definition pg_record_count :: "pg_db \<Rightarrow> pystr \<Rightarrow> nat option" where
  "pg_record_count db collection_name =
     (case db collection_name of None \<Rightarrow> None | Some t \<Rightarrow> Some (length (table_rows t)))"

text \<open>\<open>DROP TABLE IF EXISTS\<close>.\<close>

definition pg_delete_collection :: "pg_db \<Rightarrow> pystr \<Rightarrow> pg_db \<times> bool" where
  "pg_delete_collection db collection_name = (db(collection_name := None), True)"

definition pg_create_collection :: "pg_db \<Rightarrow> pystr \<Rightarrow> int \<Rightarrow> bool \<Rightarrow> pg_db \<times> bool" where
  "pg_create_collection db collection_name embedding_size do_reset =
     (let db = (if do_reset then fst (pg_delete_collection db collection_name) else db);
          is_collection_existed = pg_is_collection_existed db collection_name
      in if \<not> is_collection_existed
         then (db(collection_name \<mapsto>
                 \<lparr>table_rows = [], next_id = 1, vector_dim = embedding_size, vector_index = None\<rparr>),
               True)
         else (db, False))"

definition pg_is_index_existed :: "pg_db \<Rightarrow> pystr \<Rightarrow> bool" where
  "pg_is_index_existed db collection_name =
     (case db collection_name of None \<Rightarrow> False | Some t \<Rightarrow> vector_index t \<noteq> None)"

text \<open>
  What pgvector (0.7 or later) accepts in \<open>CREATE INDEX ... USING index_type (vector
  opclass)\<close> on a column of type \<open>vector(n)\<close>: the index type \<open>hnsw\<close> with one of its four
  operator classes or \<open>ivfflat\<close> with one of its three, and at most 2000 dimensions.
\<close>

definition pg_index_accepted :: "pystr \<Rightarrow> pystr \<Rightarrow> int \<Rightarrow> bool" where
  "pg_index_accepted index_type opclass dimensions \<longleftrightarrow>
     (index_type = py ''hnsw'' \<and>
        opclass \<in> set [py ''vector_l2_ops'', py ''vector_ip_ops'', py ''vector_cosine_ops'',
                       py ''vector_l1_ops''] \<or>
      index_type = py ''ivfflat'' \<and>
        opclass \<in> set [py ''vector_l2_ops'', py ''vector_ip_ops'', py ''vector_cosine_ops'']) \<and>
     dimensions \<le> 2000"

text \<open>
  \<open>create_vector_index\<close> returns \<open>False\<close> when it does nothing and falls off its end
  (\<open>None\<close>) after creating the index; the f-string renders a distance method \<open>None\<close>
  as the word \<open>None\<close>, which is no operator class, so that the statement raises. This is
  the only place where the distance method is read. The database is returned in every
  case: an exception of this method leaves it as it found it.
\<close>

definition pg_create_vector_index ::
  "pg_provider \<Rightarrow> pg_db \<Rightarrow> pystr \<Rightarrow> pystr \<Rightarrow> pg_db \<times> (py_error + bool option)" where
  "pg_create_vector_index p db collection_name index_type =
     (if pg_is_index_existed db collection_name then (db, Inr (Some False))
      else case db collection_name of
        None \<Rightarrow> (db, Inl DatabaseError)
      | Some t \<Rightarrow>
          (let records_count = int (length (table_rows t));
               opclass = (case pg_distance_method p of None \<Rightarrow> py ''None'' | Some m \<Rightarrow> m)
           in if records_count < pg_index_threshold p then (db, Inr (Some False))
              else if \<not> pg_index_accepted index_type opclass (vector_dim t)
              then (db, Inl DatabaseError)
              else (db(collection_name \<mapsto> t\<lparr>vector_index := Some (index_type, opclass)\<rparr>),
                    Inr None)))"

text \<open>
  The \<open>values\<close> of one batch: the four slices zipped (the shortest decides), the metadata
  stored as JSON, \<open>{}\<close> for \<open>None\<close>.
\<close>

definition pg_values ::
  "pystr list \<Rightarrow> vector list \<Rightarrow> py_metadata list \<Rightarrow> int list \<Rightarrow>
   (pystr \<times> vector \<times> py_metadata \<times> int) list" where
  "pg_values batch_texts batch_vectors batch_metadata batch_record_ids =
     map (\<lambda>(t, v, m, r). (t, v, (if m \<noteq> MetaNone then m else MetaDict []), r))
       (zip batch_texts (zip batch_vectors (zip batch_metadata batch_record_ids)))"

text \<open>
  What the table accepts as a row. A string sent to PostgreSQL must be encodable as UTF-8
  (no surrogate code point) and hold no NUL character, also inside the JSON of the
  metadata. The vector must have the declared dimension, and each of its numbers must
  round to a finite single precision number. The \<open>chunk_id\<close> column is a 32 bit integer
  with a foreign key: the value must be the \<open>chunk_id\<close> of a row of the table \<open>chunks\<close>,
  whose set of \<open>chunk_id\<close> values is the parameter \<open>chunks\<close>.
\<close>

definition pg_text_accepted :: "pystr \<Rightarrow> bool" where
  "pg_text_accepted s = list_all (\<lambda>c. c \<noteq> 0 \<and> (c < 55296 \<or> 57343 < c)) s"

fun pg_metadata_accepted :: "py_metadata \<Rightarrow> bool" where
  "pg_metadata_accepted (MetaDict kvs) =
     list_all (\<lambda>(k, v). pg_text_accepted k \<and> pg_text_accepted v) kvs"
| "pg_metadata_accepted m = True"

definition pg_row_accepted ::
  "int set \<Rightarrow> pg_table \<Rightarrow> pystr \<times> vector \<times> py_metadata \<times> int \<Rightarrow> bool" where
  "pg_row_accepted chunks t val =
     (case val of (tx, v, m, r) \<Rightarrow>
        pg_text_accepted tx \<and>
        v \<noteq> [] \<and> int (length v) = vector_dim t \<and> list_all (\<lambda>x. \<bar>x\<bar> < 2 ^ 128 - 2 ^ 103) v \<and>
        pg_metadata_accepted m \<and>
        - (2 ^ 31) \<le> r \<and> r < 2 ^ 31 \<and> r \<in> chunks)"

text \<open>
  One \<open>INSERT\<close> for a batch: every tuple becomes a new row whose \<open>id\<close> is the next value of
  the sequence. No column but \<open>id\<close> is a key, so no tuple replaces an existing row.
\<close>

definition pg_new_rows :: "nat \<Rightarrow> (pystr \<times> vector \<times> py_metadata \<times> int) list \<Rightarrow> pg_row list" where
  "pg_new_rows k vals =
     map (\<lambda>(j, (tx, v, m, r)).
            \<lparr>row_id = j, row_text = tx, row_vector = v, row_metadata = m, row_chunk_id = r\<rparr>)
         (enumerate k vals)"

definition pg_execute_insert ::
  "int set \<Rightarrow> pg_table \<Rightarrow> (pystr \<times> vector \<times> py_metadata \<times> int) list \<Rightarrow> py_error + pg_table" where
  "pg_execute_insert chunks t vals =
     (if vals = [] then Inl DatabaseError
      else if \<not> list_all (pg_row_accepted chunks t) vals then Inl DatabaseError
      else Inr (t\<lparr>table_rows := table_rows t @ pg_new_rows (next_id t) vals,
                  next_id := next_id t + length vals\<rparr>))"

fun pg_insert_batches ::
  "int set \<Rightarrow> pg_table \<Rightarrow> int \<Rightarrow> pystr list \<Rightarrow> vector list \<Rightarrow> py_metadata list \<Rightarrow> int list \<Rightarrow>
   nat list \<Rightarrow> py_error + pg_table" where
  "pg_insert_batches chunks t batch_size texts vectors metadata record_ids [] = Inr t"
| "pg_insert_batches chunks t batch_size texts vectors metadata record_ids (i # offsets) =
     (case pg_execute_insert chunks t
             (pg_values (batch_slice i batch_size texts) (batch_slice i batch_size vectors)
                (batch_slice i batch_size metadata) (batch_slice i batch_size record_ids)) of
        Inl e \<Rightarrow> Inl e
      | Inr t' \<Rightarrow> pg_insert_batches chunks t' batch_size texts vectors metadata record_ids offsets)"

text \<open>
  \<open>insert_many\<close>. All batches run in one transaction, so an exception raised in it leaves
  the database as it was. The transaction is committed before \<open>create_vector_index\<close> is
  called: an exception of that call leaves the new rows in the table.
  \<open>len(record_ids)\<close> on the default \<open>None\<close> raises TypeError. The result is the database
  after the call, with what the call returns or raises. (PostgreSQL does not give back
  the sequence values that a transaction has drawn before it is rolled back: after a
  rejected \<open>INSERT\<close> the next \<open>id\<close> can be larger than the model has it. The rows and
  their order are not affected.)
\<close>

definition pg_insert_many ::
  "pg_provider \<Rightarrow> int set \<Rightarrow> pg_db \<Rightarrow> pystr \<Rightarrow> pystr list \<Rightarrow> vector list \<Rightarrow>
   py_metadata list option \<Rightarrow> int list option \<Rightarrow> int \<Rightarrow> pg_db \<times> (py_error + bool)" where
  "pg_insert_many p chunks db collection_name texts vectors metadata record_ids batch_size =
     (case db collection_name of
        None \<Rightarrow> (db, Inr False)
      | Some t \<Rightarrow>
          (case record_ids of
             None \<Rightarrow> (db, Inl TypeError)
           | Some record_ids \<Rightarrow>
               if length vectors \<noteq> length record_ids then (db, Inr False)
               else
                 (let metadata = (case metadata of
                                    None \<Rightarrow> replicate (length texts) MetaNone
                                  | Some ms \<Rightarrow> if ms = [] then replicate (length texts) MetaNone else ms)
                  in case batch_offsets (length texts) batch_size of
                       Inl e \<Rightarrow> (db, Inl e)
                     | Inr offsets \<Rightarrow>
                         (case pg_insert_batches chunks t batch_size texts vectors metadata
                                 record_ids offsets of
                            Inl e \<Rightarrow> (db, Inl e)
                          | Inr t' \<Rightarrow>
                              (case pg_create_vector_index p (db(collection_name \<mapsto> t'))
                                      collection_name (py ''hnsw'') of
                                 (db', Inl e) \<Rightarrow> (db', Inl e)
                               | (db', Inr _) \<Rightarrow> (db', Inr True))))))"

text \<open>
  \<open>search_by_vector\<close>: the statement selects \<open>1 - (vector <=> :vector)\<close> as the score,
  orders by it descending and keeps \<open>limit\<close> rows. Rows of equal score are kept in table
  order (PostgreSQL leaves their order open).
\<close>

definition pg_search_by_vector ::
  "similarity \<Rightarrow> pg_provider \<Rightarrow> pg_db \<Rightarrow> pystr \<Rightarrow> vector \<Rightarrow> int \<Rightarrow> py_error + search_result" where
  "pg_search_by_vector sim p db collection_name vec limit =
     (case db collection_name of
        None \<Rightarrow> Inr PyFalse
      | Some t \<Rightarrow>
          if limit < 0 then Inl DatabaseError
          else Inr (Docs (take (nat limit)
                 (sort_key (\<lambda>d. - rd_score d)
                    (map (\<lambda>r. \<lparr>rd_text = row_text r,
                                rd_score = 1 - cosine_distance sim (row_vector r) vec\<rparr>)
                         (table_rows t))))))"

subsection \<open>QdrantDBProvider\<close>

text \<open>
  The Qdrant client is an external library. Its state is one collection per name, each
  with its vector parameters and its points. The calls the provider makes are modelled
  as the client documents them: \<open>upload_records\<close> stores each record under its id,
  replacing the point that has that id, and
  \<open>upload_records\<close> and \<open>search\<close> raise ValueError for a collection that does not exist.
\<close>

record qdrant_record =
  rec_id :: "int option"
  rec_vector :: vector
  rec_text :: pystr
  rec_metadata :: py_metadata

record qdrant_collection =
  qc_size :: int
  qc_distance :: "distance option"
  qc_points :: "qdrant_record list"

type_synonym qdrant_client = "pystr \<rightharpoonup> qdrant_collection"

record qdrant_provider =
  qd_default_vector_size :: int
  qd_distance_method :: "distance option"

definition QdrantDBProvider_init :: "int \<Rightarrow> pystr option \<Rightarrow> qdrant_provider" where
  "QdrantDBProvider_init default_vector_size distance_method =
     \<lparr>qd_default_vector_size = default_vector_size,
      qd_distance_method =
        (if distance_method = Some (py ''cosine'') then Some COSINE
         else if distance_method = Some (py ''dot'') then Some DOT
         else None)\<rparr>"

definition client_collection_exists :: "qdrant_client \<Rightarrow> pystr \<Rightarrow> bool" where
  "client_collection_exists c collection_name = (c collection_name \<noteq> None)"

definition client_delete_collection :: "qdrant_client \<Rightarrow> pystr \<Rightarrow> qdrant_client" where
  "client_delete_collection c collection_name = c(collection_name := None)"

definition client_create_collection ::
  "qdrant_client \<Rightarrow> pystr \<Rightarrow> int \<Rightarrow> distance option \<Rightarrow> qdrant_client" where
  "client_create_collection c collection_name vector_size distance_param =
     c(collection_name \<mapsto> \<lparr>qc_size = vector_size, qc_distance = distance_param, qc_points = []\<rparr>)"

fun upsert_point :: "qdrant_record list \<Rightarrow> qdrant_record \<Rightarrow> qdrant_record list" where
  "upsert_point [] r = [r]"
| "upsert_point (q # qs) r =
     (if rec_id r \<noteq> None \<and> rec_id q = rec_id r then r # qs else q # upsert_point qs r)"

definition client_upload_records ::
  "qdrant_client \<Rightarrow> pystr \<Rightarrow> qdrant_record list \<Rightarrow> py_error + qdrant_client" where
  "client_upload_records c collection_name records =
     (case c collection_name of
        None \<Rightarrow> Inl ValueError
      | Some col \<Rightarrow>
          Inr (c(collection_name \<mapsto> col\<lparr>qc_points := foldl upsert_point (qc_points col) records\<rparr>)))"

definition client_search ::
  "similarity \<Rightarrow> qdrant_client \<Rightarrow> pystr \<Rightarrow> vector \<Rightarrow> int \<Rightarrow> py_error + retrieved_document list" where
  "client_search sim c collection_name query_vector limit =
     (case c collection_name of
        None \<Rightarrow> Inl ValueError
      | Some col \<Rightarrow>
          Inr (take (nat limit)
                 (sort_key (\<lambda>d. - rd_score d)
                    (map (\<lambda>r. \<lparr>rd_text = rec_text r,
                                rd_score = qdrant_score sim (qc_distance col) (rec_vector r) query_vector\<rparr>)
                         (qc_points col)))))"

text \<open>
  Every method of the provider is declared \<open>async def\<close>. Calling such a method without
  \<open>await\<close> only builds a coroutine object: the body does not run, and the object is true
  in a condition. \<open>Coroutine x\<close> is the coroutine object of a call that would give \<open>x\<close>
  when awaited.
\<close>

datatype 'a coroutine = Coroutine 'a

definition coroutine_truthy :: "'a coroutine \<Rightarrow> bool" where
  "coroutine_truthy co = True"

definition qdrant_is_collection_existed :: "qdrant_client \<Rightarrow> pystr \<Rightarrow> bool" where
  "qdrant_is_collection_existed c collection_name = client_collection_exists c collection_name"

text \<open>
  \<open>delete_collection\<close>, when it is awaited: its own test calls \<open>is_collection_existed\<close>
  without \<open>await\<close>, so the client's \<open>delete_collection\<close> is always called.
\<close>

definition qdrant_delete_collection :: "qdrant_client \<Rightarrow> pystr \<Rightarrow> qdrant_client" where
  "qdrant_delete_collection c collection_name =
     (if coroutine_truthy (Coroutine (qdrant_is_collection_existed c collection_name))
      then client_delete_collection c collection_name
      else c)"

text \<open>
  \<open>create_collection\<close> calls \<open>delete_collection\<close> and \<open>is_collection_existed\<close> without
  \<open>await\<close>: the first call leaves the client as it is, and the condition
  \<open>not self.is_collection_existed(collection_name)\<close> tests a coroutine object.
\<close>

definition qdrant_create_collection ::
  "qdrant_provider \<Rightarrow> qdrant_client \<Rightarrow> pystr \<Rightarrow> int \<Rightarrow> bool \<Rightarrow> qdrant_client \<times> bool" where
  "qdrant_create_collection p c collection_name embedding_size do_reset =
     (let unawaited = (if do_reset
                       then Some (Coroutine (qdrant_delete_collection c collection_name))
                       else None)
      in if \<not> coroutine_truthy (Coroutine (qdrant_is_collection_existed c collection_name))
         then (client_create_collection c collection_name embedding_size (qd_distance_method p), True)
         else (c, False))"

text \<open>
  The comprehension building \<open>batch_records\<close> indexes the record ids, vectors and metadata
  with every index of \<open>batch_texts\<close>, one index after the other; a shorter list raises
  IndexError. \<open>models.Record\<close> then validates its fields: an id \<open>None\<close> (the default put in
  for absent record ids) raises ValidationError.
\<close>

fun batch_records ::
  "pystr list \<Rightarrow> vector list \<Rightarrow> py_metadata list \<Rightarrow> int option list \<Rightarrow>
   py_error + qdrant_record list" where
  "batch_records [] vs ms ids = Inr []"
| "batch_records (t # ts) (v # vs) (m # ms) (i # ids) =
     (if i = None then Inl ValidationError
      else case batch_records ts vs ms ids of
        Inl e \<Rightarrow> Inl e
      | Inr rs \<Rightarrow> Inr (\<lparr>rec_id = i, rec_vector = v, rec_text = t, rec_metadata = m\<rparr> # rs))"
| "batch_records (t # ts) vs ms ids = Inl IndexError"

text \<open>
  The batch loop of \<open>insert_many\<close>. The comprehension is outside the \<open>try\<close>, so its
  IndexError leaves the method; an exception of \<open>upload_records\<close> is caught and turned
  into the result \<open>False\<close>. Batches uploaded before stay in the collection, so the client
  state is returned in every case.
\<close>

fun qdrant_insert_batches ::
  "qdrant_client \<Rightarrow> pystr \<Rightarrow> int \<Rightarrow> pystr list \<Rightarrow> vector list \<Rightarrow> py_metadata list \<Rightarrow>
   int option list \<Rightarrow> nat list \<Rightarrow> qdrant_client \<times> (py_error + bool)" where
  "qdrant_insert_batches c collection_name batch_size texts vectors metadata record_ids [] =
     (c, Inr True)"
| "qdrant_insert_batches c collection_name batch_size texts vectors metadata record_ids (i # offsets) =
     (case batch_records (batch_slice i batch_size texts) (batch_slice i batch_size vectors)
             (batch_slice i batch_size metadata) (batch_slice i batch_size record_ids) of
        Inl e \<Rightarrow> (c, Inl e)
      | Inr records \<Rightarrow>
          (case client_upload_records c collection_name records of
             Inl e \<Rightarrow> (c, Inr False)
           | Inr c' \<Rightarrow>
               qdrant_insert_batches c' collection_name batch_size texts vectors metadata
                 record_ids offsets))"

definition qdrant_insert_many ::
  "qdrant_provider \<Rightarrow> qdrant_client \<Rightarrow> pystr \<Rightarrow> pystr list \<Rightarrow> vector list \<Rightarrow>
   py_metadata list option \<Rightarrow> int list option \<Rightarrow> int \<Rightarrow> qdrant_client \<times> (py_error + bool)" where
  "qdrant_insert_many p c collection_name texts vectors metadata record_ids batch_size =
     (let metadata = (case metadata of
                        None \<Rightarrow> map (\<lambda>k. MetaInt (int k)) [0 ..< length texts]
                      | Some ms \<Rightarrow> ms);
          record_ids = (case record_ids of
                          None \<Rightarrow> replicate (length texts) None
                        | Some ids \<Rightarrow> map Some ids)
      in case batch_offsets (length texts) batch_size of
           Inl e \<Rightarrow> (c, Inl e)
         | Inr offsets \<Rightarrow>
             qdrant_insert_batches c collection_name batch_size texts vectors metadata
               record_ids offsets)"

text \<open>
  \<open>search_by_vector\<close> asks the client at once, without a test that the collection
  exists; an empty result becomes \<open>None\<close>.
\<close>

definition qdrant_search_by_vector ::
  "similarity \<Rightarrow> qdrant_provider \<Rightarrow> qdrant_client \<Rightarrow> pystr \<Rightarrow> vector \<Rightarrow> int \<Rightarrow>
   py_error + search_result" where
  "qdrant_search_by_vector sim p c collection_name vec limit =
     (case client_search sim c collection_name vec limit of
        Inl e \<Rightarrow> Inl e
      | Inr results \<Rightarrow> if results = [] then Inr PyNone else Inr (Docs results))"

section \<open>OpenAIProvider\<close>

text \<open>
  The OpenAI client is an external service: the two calls the provider makes are fields
  of the client, each giving a response or raising. A chat message is the dictionary
  \<open>{"role": role, "content": prompt}\<close>.
\<close>

record message =
  role :: pystr
  content :: "pystr option"

record chat_choice =
  choice_message :: "pystr option option"

record chat_completion =
  choices :: "chat_choice list"

record embedding_response =
  response_data :: "vector list"

record openai_client =
  chat_completions_create ::
    "pystr \<Rightarrow> message list \<Rightarrow> int \<Rightarrow> real \<Rightarrow> py_error + chat_completion option"
  embeddings_create :: "pystr \<Rightarrow> pystr list \<Rightarrow> py_error + embedding_response option"

record openai_provider =
  client :: "openai_client option"
  generation_model_id :: "pystr option"
  embedding_model_id :: "pystr option"
  embedding_size :: "int option"
  default_input_max_characters :: int
  default_generation_max_output_tokens :: int
  default_generation_temperature :: real

text \<open>The test \<open>if not s\<close> on an optional string: \<open>None\<close> and the empty string are false.\<close>

definition str_truthy :: "pystr option \<Rightarrow> bool" where
  "str_truthy s = (s \<noteq> None \<and> s \<noteq> Some [])"

text \<open>The slice \<open>s[:n]\<close>; a negative \<open>n\<close> counts from the end.\<close>

definition slice_to :: "'a list \<Rightarrow> int \<Rightarrow> 'a list" where
  "slice_to s n = (if 0 \<le> n then take (nat n) s else take (length s - nat (- n)) s)"

definition process_prompt :: "openai_provider \<Rightarrow> pystr \<Rightarrow> pystr" where
  "process_prompt p prompt = strip (slice_to prompt (default_input_max_characters p))"

definition construct_prompt :: "pystr option \<Rightarrow> pystr \<Rightarrow> message" where
  "construct_prompt prompt r = \<lparr>role = r, content = prompt\<rparr>"

text \<open>
  \<open>generate_text\<close>. Python passes the list \<open>chat_history\<close> by reference, and
  \<open>chat_history.append\<close> changes that very object: the first component of the result is
  the content of the caller's list after the call, the second what the call returns or
  raises.
\<close>

definition generate_text ::
  "openai_provider \<Rightarrow> pystr \<Rightarrow> message list \<Rightarrow> int option \<Rightarrow> real option \<Rightarrow>
   message list \<times> (py_error + pystr option)" where
  "generate_text p prompt chat_history max_output_tokens temperature =
     (case client p of
        None \<Rightarrow> (chat_history, Inr None)
      | Some cl \<Rightarrow>
          if \<not> str_truthy (generation_model_id p) then (chat_history, Inr None)
          else
            (let max_output_tokens = (case max_output_tokens of
                                        Some m \<Rightarrow> m
                                      | None \<Rightarrow> default_generation_max_output_tokens p);
                 temperature = (case temperature of
                                  Some t \<Rightarrow> t
                                | None \<Rightarrow> default_generation_temperature p);
                 chat_history = chat_history @ [construct_prompt (Some prompt) (py ''user'')]
             in case chat_completions_create cl (the (generation_model_id p)) chat_history
                       max_output_tokens temperature of
                  Inl e \<Rightarrow> (chat_history, Inl e)
                | Inr response \<Rightarrow>
                    (case response of
                       None \<Rightarrow> (chat_history, Inr None)
                     | Some r \<Rightarrow>
                         (case choices r of
                            [] \<Rightarrow> (chat_history, Inr None)
                          | ch # _ \<Rightarrow>
                              (case choice_message ch of
                                 None \<Rightarrow> (chat_history, Inr None)
                               | Some c \<Rightarrow> (chat_history, Inr c))))))"

text \<open>
  \<open>embed_text\<close> on a list of prompts (a single string is first wrapped into a list).
\<close>

definition embed_text :: "openai_provider \<Rightarrow> pystr list \<Rightarrow> py_error + vector list option" where
  "embed_text p prompt =
     (case client p of
        None \<Rightarrow> Inr None
      | Some cl \<Rightarrow>
          if \<not> str_truthy (embedding_model_id p) then Inr None
          else
            (case embeddings_create cl (the (embedding_model_id p)) prompt of
               Inl e \<Rightarrow> Inl e
             | Inr response \<Rightarrow>
                 (case response of
                    None \<Rightarrow> Inr None
                  | Some r \<Rightarrow>
                      (case response_data r of
                         [] \<Rightarrow> Inr None
                       | e # _ \<Rightarrow> if e = [] then Inr None else Inr (Some (response_data r))))))"

section \<open>NLPController and the answer route\<close>

text \<open>
  The vector store client of the controller is one of the two providers, together with
  the state of its store.
\<close>

datatype vectordb = PGVector pg_provider pg_db | Qdrant qdrant_provider qdrant_client

fun default_vector_size :: "vectordb \<Rightarrow> int" where
  "default_vector_size (PGVector p db) = pg_default_vector_size p"
| "default_vector_size (Qdrant p c) = qd_default_vector_size p"

fun search_by_vector ::
  "similarity \<Rightarrow> vectordb \<Rightarrow> pystr \<Rightarrow> vector \<Rightarrow> int \<Rightarrow> py_error + search_result" where
  "search_by_vector sim (PGVector p db) collection_name vec limit =
     pg_search_by_vector sim p db collection_name vec limit"
| "search_by_vector sim (Qdrant p c) collection_name vec limit =
     qdrant_search_by_vector sim p c collection_name vec limit"

text \<open>
  The template parser reads template files that are not part of the sources: its method
  \<open>get(group, key, vars)\<close> is a field of the controller, giving a string or \<open>None\<close>.
\<close>

record nlp_controller =
  vectordb_client :: vectordb
  generation_client :: openai_provider
  embedding_client :: openai_provider
  template_parser :: "pystr \<Rightarrow> pystr \<Rightarrow> (pystr \<times> pystr) list \<Rightarrow> pystr option"

definition search_vector_db_collection ::
  "similarity \<Rightarrow> nlp_controller \<Rightarrow> int \<Rightarrow> pystr \<Rightarrow> int \<Rightarrow> py_error + search_result" where
  "search_vector_db_collection sim ctl project_id text limit =
     (let collection_name =
            create_collection_name (default_vector_size (vectordb_client ctl)) project_id
      in case embed_text (embedding_client ctl) [text] of
           Inl e \<Rightarrow> Inl e
         | Inr None \<Rightarrow> Inr PyFalse
         | Inr (Some vectors) \<Rightarrow>
             (case vectors of
                [] \<Rightarrow> Inr PyFalse
              | query_vector # _ \<Rightarrow>
                  if query_vector = [] then Inr PyFalse
                  else
                    (case search_by_vector sim (vectordb_client ctl) collection_name
                            query_vector limit of
                       Inl e \<Rightarrow> Inl e
                     | Inr results \<Rightarrow> if \<not> truthy results then Inr PyFalse else Inr results)))"

text \<open>\<open>sep.join(xs)\<close> raises TypeError when an item is \<open>None\<close>.\<close>

definition join_items :: "pystr \<Rightarrow> pystr option list \<Rightarrow> py_error + pystr" where
  "join_items sep xs = (if None \<in> set xs then Inl TypeError else Inr (join sep (map the xs)))"

text \<open>
  \<open>answer_rag_question\<close> returns \<open>None\<close> when nothing was retrieved, and otherwise the
  triple of answer, full prompt and chat history (the list it handed to
  \<open>generate_text\<close>, as that call left it).
\<close>

definition answer_rag_question ::
  "similarity \<Rightarrow> nlp_controller \<Rightarrow> int \<Rightarrow> pystr \<Rightarrow> int \<Rightarrow>
   py_error + (pystr option \<times> pystr \<times> message list) option" where
  "answer_rag_question sim ctl project_id query limit =
     (case search_vector_db_collection sim ctl project_id query limit of
        Inl e \<Rightarrow> Inl e
      | Inr retrieved_documents \<Rightarrow>
          (case retrieved_documents of
             PyFalse \<Rightarrow> Inr None
           | PyNone \<Rightarrow> Inr None
           | Docs docs \<Rightarrow>
               if docs = [] then Inr None
               else
                 (let system_prompt = template_parser ctl (py ''rag'') (py ''system_prompt'') [] in
                  case join_items [10]
                         (map (\<lambda>(idx, doc).
                                 template_parser ctl (py ''rag'') (py ''document_prompt'')
                                   [(py ''doc_num'', str_int (int idx + 1)),
                                    (py ''chunk_text'',
                                     process_prompt (generation_client ctl) (rd_text doc))])
                              (enumerate 0 docs)) of
                    Inl e \<Rightarrow> Inl e
                  | Inr documents_prompt \<Rightarrow>
                      (let footer_prompt =
                             template_parser ctl (py ''rag'') (py ''footer_prompt'')
                               [(py ''query'', query)];
                           chat_history = [construct_prompt system_prompt (py ''system'')]
                       in case join_items [10, 10] [Some documents_prompt, footer_prompt] of
                            Inl e \<Rightarrow> Inl e
                          | Inr full_prompt \<Rightarrow>
                              (case generate_text (generation_client ctl) full_prompt
                                      chat_history None None of
                                 (chat_history, Inl e) \<Rightarrow> Inl e
                               | (chat_history, Inr answer) \<Rightarrow>
                                   Inr (Some (answer, full_prompt, chat_history)))))))"

text \<open>
  The route \<open>answer_rag\<close>. The project is fetched (or created) by its id; the result of
  \<open>answer_rag_question\<close> is unpacked into three names at once, which raises TypeError
  when that result is \<open>None\<close>.
\<close>

datatype response_signal = RAG_ANSWER_ERROR | RAG_ANSWER_SUCCESS

record json_response =
  status_code :: int
  signal :: response_signal
  answer_content :: "(pystr option \<times> pystr \<times> message list) option"

definition answer_rag ::
  "similarity \<Rightarrow> nlp_controller \<Rightarrow> int \<Rightarrow> pystr \<Rightarrow> int \<Rightarrow> py_error + json_response" where
  "answer_rag sim ctl project_id text limit =
     (case answer_rag_question sim ctl project_id text limit of
        Inl e \<Rightarrow> Inl e
      | Inr None \<Rightarrow> Inl TypeError
      | Inr (Some (answer, full_prompt, chat_history)) \<Rightarrow>
          if \<not> str_truthy answer
          then Inr \<lparr>status_code = 400, signal = RAG_ANSWER_ERROR, answer_content = None\<rparr>
          else Inr \<lparr>status_code = 200, signal = RAG_ANSWER_SUCCESS,
                    answer_content = Some (answer, full_prompt, chat_history)\<rparr>)"

section \<open>Properties of trimming and of the chunk loop\<close>

lemma lstrip_id: "s \<noteq> [] \<Longrightarrow> \<not> isspace (hd s) \<Longrightarrow> lstrip s = s"
  by (cases s) (auto simp: lstrip_def)

lemma dropWhile_snoc_keep:
  "\<not> P y \<Longrightarrow> \<exists>zs. dropWhile P (xs @ [y]) = zs @ [y]"
  by (induction xs) auto

lemma strip_cases:
  "strip s = [] \<or> (\<not> isspace (hd (strip s)) \<and> \<not> isspace (last (strip s)))"
proof (cases "strip s = []")
  case True then show ?thesis by simp
next
  case False
  let ?l = "dropWhile isspace s"
  have ne: "dropWhile isspace (rev ?l) \<noteq> []"
    using False by (simp add: strip_def rstrip_def lstrip_def)
  then have a: "\<not> isspace (hd (dropWhile isspace (rev ?l)))"
    by (rule hd_dropWhile)
  have lne: "?l \<noteq> []" using ne by (metis dropWhile.simps(1) rev.simps(1))
  then have h: "\<not> isspace (hd ?l)" by (rule hd_dropWhile)
  have "last (strip s) = hd (dropWhile isspace (rev ?l))"
    using ne by (simp add: strip_def rstrip_def lstrip_def last_rev)
  then have l: "\<not> isspace (last (strip s))" using a by simp
  obtain y ys where l_eq: "?l = y # ys" using lne by (cases ?l) auto
  have ny: "\<not> isspace y" using h l_eq by simp
  obtain zs where "dropWhile isspace (rev ys @ [y]) = zs @ [y]"
    using dropWhile_snoc_keep [of isspace y "rev ys"] ny by blast
  then have "hd (strip s) = y"
    by (simp add: strip_def rstrip_def lstrip_def l_eq)
  then show ?thesis using ny l by simp
qed


lemma trimmed_lines_props:
  "l \<in> set (trimmed_lines docs) \<Longrightarrow> l \<noteq> [] \<and> \<not> isspace (hd l) \<and> \<not> isspace (last l)"
proof -
  assume "l \<in> set (trimmed_lines docs)"
  then obtain doc where l: "l = strip doc" and len: "1 < length (strip doc)"
    by (auto simp: trimmed_lines_def)
  from len have "strip doc \<noteq> []" by auto
  with strip_cases [of doc] l show ?thesis by simp
qed

lemma rstrip_append:
  assumes "x \<noteq> []" and "\<not> isspace (last x)"
  shows "rstrip (x @ t) = x @ rstrip t"
proof -
  have keep: "dropWhile isspace (rev x) = rev x"
    using assms by (cases x rule: rev_cases) auto
  show ?thesis
  proof (cases "\<forall>c \<in> set (rev t). isspace c")
    case True
    then have "dropWhile isspace (rev t @ rev x) = dropWhile isspace (rev x)"
      by (intro dropWhile_append2) simp
    then have "dropWhile isspace (rev t @ rev x) = rev x"
      using keep by simp
    moreover have "dropWhile isspace (rev t) = []" using True by simp
    ultimately show ?thesis by (simp add: rstrip_def)
  next
    case False
    then obtain c where "c \<in> set (rev t)" and "\<not> isspace c" by blast
    then have "dropWhile isspace (rev t @ rev x) = dropWhile isspace (rev t) @ rev x"
      by (rule dropWhile_append1)
    then show ?thesis by (simp add: rstrip_def)
  qed
qed

lemma length_rstrip:
  "length (rstrip t) + length (takeWhile isspace (rev t)) = length t"
proof -
  have "length (takeWhile isspace (rev t) @ dropWhile isspace (rev t)) = length (rev t)"
    by (simp only: takeWhile_dropWhile_id)
  then have "length (takeWhile isspace (rev t)) + length (dropWhile isspace (rev t)) = length t"
    by (simp only: length_append length_rev)
  then show ?thesis by (simp add: rstrip_def add.commute)
qed

text \<open>
  The buffer built from a non-empty run of trimmed lines is a text that starts and ends
  with a character that is not white space, followed by the splitter.
\<close>

lemma buffer_shape:
  assumes "g \<noteq> []"
    and "\<forall>l \<in> set g. l \<noteq> [] \<and> \<not> isspace (hd l) \<and> \<not> isspace (last l)"
  shows "\<exists>y. concat (map (\<lambda>l. l @ tag) g) = y @ tag \<and> y \<noteq> [] \<and>
              \<not> isspace (hd y) \<and> \<not> isspace (last y)"
  using assms
proof (induction g rule: rev_induct)
  case Nil
  then show ?case by simp
next
  case (snoc l g)
  have lp: "l \<noteq> []" "\<not> isspace (hd l)" "\<not> isspace (last l)" using snoc.prems(2) by auto
  show ?case
  proof (cases "g = []")
    case True
    then have "concat (map (\<lambda>l. l @ tag) (g @ [l])) = l @ tag" by simp
    with lp show ?thesis by blast
  next
    case False
    with snoc obtain y where y: "concat (map (\<lambda>l. l @ tag) g) = y @ tag" "y \<noteq> []"
      "\<not> isspace (hd y)" by auto
    have "concat (map (\<lambda>l. l @ tag) (g @ [l])) = (y @ tag @ l) @ tag"
      using y(1) by simp
    moreover have "y @ tag @ l \<noteq> []" using lp by simp
    moreover have "\<not> isspace (hd (y @ tag @ l))" using y by simp
    moreover have "\<not> isspace (last (y @ tag @ l))" using lp by simp
    ultimately show ?thesis by blast
  qed
qed

lemma strip_buffer:
  assumes "g \<noteq> []"
    and "\<forall>l \<in> set g. l \<noteq> [] \<and> \<not> isspace (hd l) \<and> \<not> isspace (last l)"
  shows "length (strip (concat (map (\<lambda>l. l @ tag) g))) + length (takeWhile isspace (rev tag)) =
           length (concat (map (\<lambda>l. l @ tag) g))"
proof -
  from buffer_shape [OF assms, of tag]
  obtain y where y: "concat (map (\<lambda>l. l @ tag) g) = y @ tag" "y \<noteq> []"
    "\<not> isspace (hd y)" "\<not> isspace (last y)" by blast
  have "lstrip (y @ tag) = y @ tag"
    using y(2,3) by (intro lstrip_id) simp_all
  then have "strip (y @ tag) = y @ rstrip tag"
    using rstrip_append [OF y(2) y(4)] by (simp add: strip_def)
  then show ?thesis using y(1) length_rstrip [of tag] by simp
qed

text \<open>
  What the loop computes. Started on a buffer built from the lines \<open>pending\<close> that has not
  reached \<open>chunk_size\<close>, it cuts \<open>pending @ lines\<close> into consecutive groups and a rest:
  each group is the shortest run of lines whose buffer reaches \<open>chunk_size\<close> and gives one
  chunk, and the rest, whose buffer stays below \<open>chunk_size\<close>, is the remaining buffer.
\<close>

lemma chunk_loop_groups:
  assumes "pending \<noteq> [] \<longrightarrow> int (length (concat (map (\<lambda>l. l @ tag) pending))) < chunk_size"
  shows "\<exists>groups rest.
           pending @ lines = concat groups @ rest \<and>
           chunk_loop chunk_size tag lines (chunks, concat (map (\<lambda>l. l @ tag) pending)) =
             (chunks @ map (\<lambda>g. \<lparr>page_content = strip (concat (map (\<lambda>l. l @ tag) g)),
                                   doc_metadata = []\<rparr>) groups,
              concat (map (\<lambda>l. l @ tag) rest)) \<and>
           (\<forall>g \<in> set groups.
              g \<noteq> [] \<and> chunk_size \<le> int (length (concat (map (\<lambda>l. l @ tag) g))) \<and>
              (butlast g \<noteq> [] \<longrightarrow>
                 int (length (concat (map (\<lambda>l. l @ tag) (butlast g)))) < chunk_size)) \<and>
           (rest \<noteq> [] \<longrightarrow> int (length (concat (map (\<lambda>l. l @ tag) rest))) < chunk_size)"
  using assms
proof (induction lines arbitrary: chunks pending)
  case Nil
  have "pending @ [] = concat [] @ pending" by simp
  with Nil show ?case by (intro exI [of _ "[]"] exI [of _ pending]) simp
next
  case (Cons l lines)
  let ?buf = "\<lambda>g. concat (map (\<lambda>l. l @ tag) g)"
  have cur: "?buf pending @ l @ tag = ?buf (pending @ [l])" by simp
  show ?case
  proof (cases "chunk_size \<le> int (length (?buf (pending @ [l])))")
    case True
    have "[] \<noteq> [] \<longrightarrow> int (length (?buf [])) < chunk_size" by simp
    from Cons.IH [OF this, of "chunks @ [\<lparr>page_content = strip (?buf (pending @ [l])),
                                             doc_metadata = []\<rparr>]"]
    obtain groups rest where
      part: "[] @ lines = concat groups @ rest"
      and loop: "chunk_loop chunk_size tag lines
                   (chunks @ [\<lparr>page_content = strip (?buf (pending @ [l])), doc_metadata = []\<rparr>],
                    ?buf []) =
                 ((chunks @ [\<lparr>page_content = strip (?buf (pending @ [l])), doc_metadata = []\<rparr>]) @
                    map (\<lambda>g. \<lparr>page_content = strip (?buf g), doc_metadata = []\<rparr>) groups,
                  ?buf rest)"
      and grp: "\<forall>g \<in> set groups.
                  g \<noteq> [] \<and> chunk_size \<le> int (length (?buf g)) \<and>
                  (butlast g \<noteq> [] \<longrightarrow> int (length (?buf (butlast g))) < chunk_size)"
      and rst: "rest \<noteq> [] \<longrightarrow> int (length (?buf rest)) < chunk_size"
      by blast
    let ?groups = "(pending @ [l]) # groups"
    have 1: "pending @ l # lines = concat ?groups @ rest" using part by simp
    have 2: "chunk_loop chunk_size tag (l # lines) (chunks, ?buf pending) =
               (chunks @ map (\<lambda>g. \<lparr>page_content = strip (?buf g), doc_metadata = []\<rparr>) ?groups,
                ?buf rest)"
      using True loop by (simp add: Let_def)
    have 3: "\<forall>g \<in> set ?groups.
               g \<noteq> [] \<and> chunk_size \<le> int (length (?buf g)) \<and>
               (butlast g \<noteq> [] \<longrightarrow> int (length (?buf (butlast g))) < chunk_size)"
      using grp True Cons.prems by (simp add: butlast_append)
    from 1 2 3 rst show ?thesis by blast
  next
    case False
    then have "pending @ [l] \<noteq> [] \<longrightarrow> int (length (?buf (pending @ [l]))) < chunk_size"
      by simp
    from Cons.IH [OF this, of chunks]
    obtain groups rest where
      part: "(pending @ [l]) @ lines = concat groups @ rest"
      and loop: "chunk_loop chunk_size tag lines (chunks, ?buf (pending @ [l])) =
                 (chunks @ map (\<lambda>g. \<lparr>page_content = strip (?buf g), doc_metadata = []\<rparr>) groups,
                  ?buf rest)"
      and grp: "\<forall>g \<in> set groups.
                  g \<noteq> [] \<and> chunk_size \<le> int (length (?buf g)) \<and>
                  (butlast g \<noteq> [] \<longrightarrow> int (length (?buf (butlast g))) < chunk_size)"
      and rst: "rest \<noteq> [] \<longrightarrow> int (length (?buf rest)) < chunk_size"
      by blast
    have 1: "pending @ l # lines = concat groups @ rest" using part by simp
    have 2: "chunk_loop chunk_size tag (l # lines) (chunks, ?buf pending) =
               (chunks @ map (\<lambda>g. \<lparr>page_content = strip (?buf g), doc_metadata = []\<rparr>) groups,
                ?buf rest)"
      using False loop by (simp add: Let_def)
    from 1 2 grp rst show ?thesis by blast
  qed
qed

lemma process_ab_3:
  "process_simpler_splitter [py ''ab''] [] 3 [10] =
     Inr [\<lparr>page_content = py ''ab'', doc_metadata = []\<rparr>, \<lparr>page_content = [], doc_metadata = []\<rparr>]"
  by (simp add: process_simpler_splitter_def split_def py_def trimmed_lines_def strip_def
      lstrip_def rstrip_def isspace_def)

lemma process_three_lines:
  "process_simpler_splitter [[97, 98, 10, 99, 100, 10, 101, 102]] [] 5 [10] =
     Inr [\<lparr>page_content = [97, 98, 10, 99, 100], doc_metadata = []\<rparr>,
          \<lparr>page_content = [101, 102], doc_metadata = []\<rparr>]"
  by (simp add: process_simpler_splitter_def split_def py_def trimmed_lines_def strip_def
      lstrip_def rstrip_def isspace_def)

lemma process_groups:
  assumes "splitter_tag \<noteq> []"
  shows "\<exists>groups rest.
           concat groups @ rest =
             trimmed_lines (split_from splitter_tag [] (join (py '' '') texts)) \<and>
           (\<forall>g \<in> set groups.
              g \<noteq> [] \<and> chunk_size \<le> int (length (concat (map (\<lambda>l. l @ splitter_tag) g))) \<and>
              (butlast g \<noteq> [] \<longrightarrow>
                 int (length (concat (map (\<lambda>l. l @ splitter_tag) (butlast g)))) < chunk_size)) \<and>
           (rest \<noteq> [] \<longrightarrow> int (length (concat (map (\<lambda>l. l @ splitter_tag) rest))) < chunk_size) \<and>
           process_simpler_splitter texts metadatas chunk_size splitter_tag =
             Inr (map (\<lambda>g. \<lparr>page_content = strip (concat (map (\<lambda>l. l @ splitter_tag) g)),
                              doc_metadata = []\<rparr>) groups @
                  [\<lparr>page_content = strip (concat (map (\<lambda>l. l @ splitter_tag) rest)),
                    doc_metadata = []\<rparr>])"
proof -
  let ?lines = "trimmed_lines (split_from splitter_tag [] (join (py '' '') texts))"
  let ?buf = "\<lambda>g. concat (map (\<lambda>l. l @ splitter_tag) g)"
  have "[] \<noteq> [] \<longrightarrow> int (length (?buf [])) < chunk_size" by simp
  from chunk_loop_groups [OF this, of ?lines "[]"]
  obtain groups rest where
    part: "[] @ ?lines = concat groups @ rest"
    and loop: "chunk_loop chunk_size splitter_tag ?lines ([], ?buf []) =
                 ([] @ map (\<lambda>g. \<lparr>page_content = strip (?buf g), doc_metadata = []\<rparr>) groups,
                  ?buf rest)"
    and grp: "\<forall>g \<in> set groups.
                g \<noteq> [] \<and> chunk_size \<le> int (length (?buf g)) \<and>
                (butlast g \<noteq> [] \<longrightarrow> int (length (?buf (butlast g))) < chunk_size)"
    and rst: "rest \<noteq> [] \<longrightarrow> int (length (?buf rest)) < chunk_size"
    by blast
  have 1: "concat groups @ rest = ?lines" using part by simp
  have "chunk_loop chunk_size splitter_tag ?lines ([], []) =
          (map (\<lambda>g. \<lparr>page_content = strip (?buf g), doc_metadata = []\<rparr>) groups, ?buf rest)"
    using loop by simp
  then have 2: "process_simpler_splitter texts metadatas chunk_size splitter_tag =
             Inr (map (\<lambda>g. \<lparr>page_content = strip (?buf g), doc_metadata = []\<rparr>) groups @
                  [\<lparr>page_content = strip (?buf rest), doc_metadata = []\<rparr>])"
    using assms by (simp add: process_simpler_splitter_def split_def)
  from 1 grp rst 2 show ?thesis by blast
qed

section \<open>Claims about the chunker\<close>

text \<open>
  C1 (as stated) fails. With the single text \<open>ab\<close>, \<open>chunk_size = 3\<close> and the newline (code
  point 10) as splitter, the buffer \<open>ab\<close> followed by a newline has length 3 and is emitted;
  its trimmed content \<open>ab\<close> has length 2, and it is not the last chunk.
\<close>

theorem emitted_chunk_length_counterexample:
  "(0::int) < 3 \<and>
   process_simpler_splitter [py ''ab''] [] 3 [10] =
     Inr [\<lparr>page_content = py ''ab'', doc_metadata = []\<rparr>, \<lparr>page_content = [], doc_metadata = []\<rparr>] \<and>
   \<not> (3 \<le> int (length (page_content \<lparr>page_content = py ''ab'', doc_metadata = []\<rparr>)))"
  by (simp add: process_ab_3) (simp add: py_def)

text \<open>
  C1 (as amended). A chunk emitted before the final one is the trimmed form of a buffer,
  built from kept lines each followed by the splitter, whose length has reached
  \<open>chunk_size\<close>. Trimming removes exactly the white space at the end of the splitter: the
  length of the content is the length of the buffer minus the number of trailing white
  space characters of the splitter. So the content has at least \<open>chunk_size\<close> characters
  when the splitter does not end in white space.
\<close>

theorem emitted_chunk_length_bound:
  assumes "process_simpler_splitter texts metadatas chunk_size splitter_tag = Inr out"
    and "i + 1 < length out"
  shows "\<exists>g. g \<noteq> [] \<and>
           set g \<subseteq> set (trimmed_lines (split_from splitter_tag [] (join (py '' '') texts))) \<and>
           page_content (out ! i) = strip (concat (map (\<lambda>l. l @ splitter_tag) g)) \<and>
           chunk_size \<le> int (length (concat (map (\<lambda>l. l @ splitter_tag) g))) \<and>
           length (page_content (out ! i)) + length (takeWhile isspace (rev splitter_tag)) =
             length (concat (map (\<lambda>l. l @ splitter_tag) g)) \<and>
           (\<not> isspace (last splitter_tag) \<longrightarrow> chunk_size \<le> int (length (page_content (out ! i))))"
proof -
  let ?buf = "\<lambda>g. concat (map (\<lambda>l. l @ splitter_tag) g)"
  have tag: "splitter_tag \<noteq> []"
    using assms(1) by (auto simp: process_simpler_splitter_def split_def)
  from process_groups [OF tag, where chunk_size = chunk_size and texts = texts and metadatas = metadatas]
  obtain groups rest where
    part: "concat groups @ rest =
             trimmed_lines (split_from splitter_tag [] (join (py '' '') texts))"
    and grp: "\<forall>g \<in> set groups.
                g \<noteq> [] \<and> chunk_size \<le> int (length (?buf g)) \<and>
                (butlast g \<noteq> [] \<longrightarrow> int (length (?buf (butlast g))) < chunk_size)"
    and res: "process_simpler_splitter texts metadatas chunk_size splitter_tag =
             Inr (map (\<lambda>g. \<lparr>page_content = strip (?buf g), doc_metadata = []\<rparr>) groups @
                  [\<lparr>page_content = strip (?buf rest), doc_metadata = []\<rparr>])"
    by blast
  have out: "out = map (\<lambda>g. \<lparr>page_content = strip (?buf g), doc_metadata = []\<rparr>) groups @
                  [\<lparr>page_content = strip (?buf rest), doc_metadata = []\<rparr>]"
    using assms(1) res by simp
  have i: "i < length groups" using assms(2) out by simp
  let ?g = "groups ! i"
  have mem: "?g \<in> set groups" using i by simp
  have content: "page_content (out ! i) = strip (?buf ?g)"
    using i out by (simp add: nth_append)
  have ne: "?g \<noteq> []" and reach: "chunk_size \<le> int (length (?buf ?g))"
    using grp mem by auto
  have sub: "set ?g \<subseteq> set (trimmed_lines (split_from splitter_tag [] (join (py '' '') texts)))"
    using mem by (simp only: part [symmetric]) auto
  then have good: "\<forall>l \<in> set ?g. l \<noteq> [] \<and> \<not> isspace (hd l) \<and> \<not> isspace (last l)"
    using trimmed_lines_props by (metis subsetD)
  have len: "length (page_content (out ! i)) + length (takeWhile isspace (rev splitter_tag)) =
               length (?buf ?g)"
    using strip_buffer [OF ne good, of splitter_tag] content by simp
  have "\<not> isspace (last splitter_tag) \<longrightarrow> chunk_size \<le> int (length (page_content (out ! i)))"
  proof
    assume "\<not> isspace (last splitter_tag)"
    then have "takeWhile isspace (rev splitter_tag) = []"
      using tag by (cases splitter_tag rule: rev_cases) auto
    with len reach show "chunk_size \<le> int (length (page_content (out ! i)))" by simp
  qed
  with ne sub content reach len show ?thesis by blast
qed

theorem emitted_chunk_length_bound_witness:
  "process_simpler_splitter [py ''ab''] [] 3 [10] =
     Inr [\<lparr>page_content = py ''ab'', doc_metadata = []\<rparr>, \<lparr>page_content = [], doc_metadata = []\<rparr>] \<and>
   0 + 1 < length [\<lparr>page_content = py ''ab'', doc_metadata = []\<rparr>, \<lparr>page_content = [], doc_metadata = []\<rparr>] \<and>
   (\<exists>g. g \<noteq> [] \<and>
      set g \<subseteq> set (trimmed_lines (split_from [10] [] (join (py '' '') [py ''ab'']))) \<and>
      page_content ([\<lparr>page_content = py ''ab'', doc_metadata = []\<rparr>,
                     \<lparr>page_content = [], doc_metadata = []\<rparr>] ! 0) =
        strip (concat (map (\<lambda>l. l @ [10]) g)) \<and>
      3 \<le> int (length (concat (map (\<lambda>l. l @ [10]) g))) \<and>
      length (page_content ([\<lparr>page_content = py ''ab'', doc_metadata = []\<rparr>,
                             \<lparr>page_content = [], doc_metadata = []\<rparr>] ! 0)) +
        length (takeWhile isspace (rev [10])) =
        length (concat (map (\<lambda>l. l @ [10]) g)) \<and>
      (\<not> isspace (last [10]) \<longrightarrow>
         3 \<le> int (length (page_content ([\<lparr>page_content = py ''ab'', doc_metadata = []\<rparr>,
                                           \<lparr>page_content = [], doc_metadata = []\<rparr>] ! 0)))))"
proof -
  have h: "process_simpler_splitter [py ''ab''] [] 3 [10] =
     Inr [\<lparr>page_content = py ''ab'', doc_metadata = []\<rparr>, \<lparr>page_content = [], doc_metadata = []\<rparr>]"
    by (rule process_ab_3)
  have l: "0 + 1 < length [\<lparr>page_content = py ''ab'', doc_metadata = []\<rparr>, \<lparr>page_content = [], doc_metadata = []\<rparr>]"
    by simp
  show ?thesis
    by (rule conjI [OF h conjI [OF l emitted_chunk_length_bound [OF h l]]])
qed

text \<open>
  C2 (as stated) fails for an empty splitter: \<open>str.split\<close> raises ValueError, and nothing is
  emitted.
\<close>

theorem final_chunk_counterexample:
  "process_simpler_splitter [py ''ab''] [] 3 [] = Inl ValueError"
  by (simp add: process_simpler_splitter_def split_def)

text \<open>
  C2 (as amended). For a splitter that is not empty, the kept lines are cut into
  consecutive groups and a rest. Each group is the shortest run of lines whose buffer
  (every line followed by the splitter) reaches \<open>chunk_size\<close>, and gives one chunk. The
  rest is what was consumed after the last such chunk; its buffer, which stays below
  \<open>chunk_size\<close>, is the remaining buffer. The result is the chunks of the groups followed by
  exactly one more chunk, the trimmed remaining buffer, also when the rest is empty: the
  result is never empty, and its last chunk is then empty.
\<close>

theorem final_chunk_always_emitted:
  assumes "splitter_tag \<noteq> []"
  shows "\<exists>docs groups rest out.
           split (join (py '' '') texts) splitter_tag = Inr docs \<and>
           concat groups @ rest = trimmed_lines docs \<and>
           (\<forall>g \<in> set groups.
              g \<noteq> [] \<and> chunk_size \<le> int (length (concat (map (\<lambda>l. l @ splitter_tag) g))) \<and>
              (butlast g \<noteq> [] \<longrightarrow>
                 int (length (concat (map (\<lambda>l. l @ splitter_tag) (butlast g)))) < chunk_size)) \<and>
           (rest \<noteq> [] \<longrightarrow> int (length (concat (map (\<lambda>l. l @ splitter_tag) rest))) < chunk_size) \<and>
           process_simpler_splitter texts metadatas chunk_size splitter_tag = Inr out \<and>
           out = map (\<lambda>g. \<lparr>page_content = strip (concat (map (\<lambda>l. l @ splitter_tag) g)),
                            doc_metadata = []\<rparr>) groups @
                 [\<lparr>page_content = strip (concat (map (\<lambda>l. l @ splitter_tag) rest)),
                   doc_metadata = []\<rparr>] \<and>
           out \<noteq> [] \<and>
           (rest = [] \<longrightarrow> page_content (last out) = [])"
proof -
  let ?buf = "\<lambda>g. concat (map (\<lambda>l. l @ splitter_tag) g)"
  have s: "split (join (py '' '') texts) splitter_tag =
             Inr (split_from splitter_tag [] (join (py '' '') texts))"
    using assms by (simp add: split_def)
  from process_groups [OF assms, where chunk_size = chunk_size and texts = texts and metadatas = metadatas]
  obtain groups rest where
    part: "concat groups @ rest =
             trimmed_lines (split_from splitter_tag [] (join (py '' '') texts))"
    and grp: "\<forall>g \<in> set groups.
                g \<noteq> [] \<and> chunk_size \<le> int (length (?buf g)) \<and>
                (butlast g \<noteq> [] \<longrightarrow> int (length (?buf (butlast g))) < chunk_size)"
    and rst: "rest \<noteq> [] \<longrightarrow> int (length (?buf rest)) < chunk_size"
    and res: "process_simpler_splitter texts metadatas chunk_size splitter_tag =
             Inr (map (\<lambda>g. \<lparr>page_content = strip (?buf g), doc_metadata = []\<rparr>) groups @
                  [\<lparr>page_content = strip (?buf rest), doc_metadata = []\<rparr>])"
    by blast
  let ?out = "map (\<lambda>g. \<lparr>page_content = strip (?buf g), doc_metadata = []\<rparr>) groups @
                  [\<lparr>page_content = strip (?buf rest), doc_metadata = []\<rparr>]"
  have ne: "?out \<noteq> []" by simp
  have e: "rest = [] \<longrightarrow> page_content (last ?out) = []"
    by (simp add: strip_def lstrip_def rstrip_def)
  from s part grp rst res ne e show ?thesis by blast
qed

theorem final_chunk_always_emitted_witness:
  "[10::nat] \<noteq> [] \<and>
   process_simpler_splitter [[97, 98, 10, 99, 100, 10, 101, 102]] [] 5 [10] =
     Inr [\<lparr>page_content = [97, 98, 10, 99, 100], doc_metadata = []\<rparr>,
          \<lparr>page_content = [101, 102], doc_metadata = []\<rparr>] \<and>
   (\<exists>docs groups rest out.
           split (join (py '' '') [[97, 98, 10, 99, 100, 10, 101, 102]]) [10] = Inr docs \<and>
           concat groups @ rest = trimmed_lines docs \<and>
           (\<forall>g \<in> set groups.
              g \<noteq> [] \<and> 5 \<le> int (length (concat (map (\<lambda>l. l @ [10]) g))) \<and>
              (butlast g \<noteq> [] \<longrightarrow>
                 int (length (concat (map (\<lambda>l. l @ [10]) (butlast g)))) < 5)) \<and>
           (rest \<noteq> [] \<longrightarrow> int (length (concat (map (\<lambda>l. l @ [10]) rest))) < 5) \<and>
           process_simpler_splitter [[97, 98, 10, 99, 100, 10, 101, 102]] [] 5 [10] = Inr out \<and>
           out = map (\<lambda>g. \<lparr>page_content = strip (concat (map (\<lambda>l. l @ [10]) g)),
                            doc_metadata = []\<rparr>) groups @
                 [\<lparr>page_content = strip (concat (map (\<lambda>l. l @ [10]) rest)),
                   doc_metadata = []\<rparr>] \<and>
           out \<noteq> [] \<and>
           (rest = [] \<longrightarrow> page_content (last out) = []))"
proof -
  have t: "[10::nat] \<noteq> []" by simp
  show ?thesis
    by (rule conjI [OF t conjI [OF process_three_lines final_chunk_always_emitted [OF t]]])
qed

section \<open>Properties of collection names\<close>

declare str_nat.simps [simp del]

lemma str_nat_nonempty: "str_nat n \<noteq> []"
  by (subst str_nat.simps) simp

lemma str_nat_last: "last (str_nat n) = 48 + n mod 10"
  by (subst str_nat.simps) simp

lemma str_nat_inj: "str_nat n = str_nat m \<Longrightarrow> n = m"
proof (induction n arbitrary: m rule: str_nat.induct)
  case (1 n)
  show ?case
  proof (cases "n < 10")
    case n: True
    show ?thesis
    proof (cases "m < 10")
      case True
      with n "1.prems" show ?thesis by (simp add: str_nat.simps [of n] str_nat.simps [of m])
    next
      case False
      with n "1.prems" str_nat_nonempty [of "m div 10"] show ?thesis
        by (simp add: str_nat.simps [of n] str_nat.simps [of m])
    qed
  next
    case n: False
    show ?thesis
    proof (cases "m < 10")
      case True
      with n "1.prems" str_nat_nonempty [of "n div 10"] show ?thesis
        by (simp add: str_nat.simps [of n] str_nat.simps [of m])
    next
      case False
      with n "1.prems" have "str_nat (n div 10) = str_nat (m div 10)" and md: "n mod 10 = m mod 10"
        by (simp_all add: str_nat.simps [of n] str_nat.simps [of m])
      with "1.IH" n have "n div 10 = m div 10" by blast
      with md show ?thesis by (metis div_mult_mod_eq)
    qed
  qed
qed

lemma str_nat_hd: "hd (str_nat n) \<noteq> 45"
proof (induction n rule: str_nat.induct)
  case (1 n)
  show ?case
  proof (cases "n < 10")
    case True then show ?thesis by (simp add: str_nat.simps [of n])
  next
    case False
    with 1 str_nat_nonempty [of "n div 10"] show ?thesis
      by (simp add: str_nat.simps [of n] hd_append)
  qed
qed

lemma str_int_inj: "str_int i = str_int j \<Longrightarrow> i = j"
proof -
  assume e: "str_int i = str_int j"
  have ne: "\<And>n m. 45 # str_nat n \<noteq> str_nat m"
    using str_nat_hd by (metis list.sel(1))
  show ?thesis
  proof (cases "i < 0"; cases "j < 0")
    assume "i < 0" "j < 0"
    with e have "nat (- i) = nat (- j)" by (simp add: str_int_def str_nat_inj)
    with \<open>i < 0\<close> \<open>j < 0\<close> show ?thesis by simp
  next
    assume "i < 0" "\<not> j < 0"
    with e ne show ?thesis by (simp add: str_int_def)
  next
    assume "\<not> i < 0" "j < 0"
    with e ne [of "nat (- j)" "nat i"] show ?thesis by (simp add: str_int_def)
  next
    assume "\<not> i < 0" "\<not> j < 0"
    with e have "nat i = nat j" by (simp add: str_int_def str_nat_inj)
    with \<open>\<not> i < 0\<close> \<open>\<not> j < 0\<close> show ?thesis by simp
  qed
qed

lemma str_int_nonempty: "str_int i \<noteq> []"
  by (simp add: str_int_def str_nat_nonempty)

lemma digit_not_space: "k < 10 \<Longrightarrow> \<not> isspace (48 + k)"
  by (simp add: isspace_def)

lemma str_int_last: "\<not> isspace (last (str_int i))"
proof -
  have "last (str_int i) = 48 + nat \<bar>i\<bar> mod 10"
    using str_nat_nonempty by (auto simp: str_int_def str_nat_last)
  moreover have "\<not> isspace (48 + nat \<bar>i\<bar> mod 10)"
    by (rule digit_not_space) simp
  ultimately show ?thesis by simp
qed

lemma strip_id:
  assumes "s \<noteq> []" and "\<not> isspace (hd s)" and "\<not> isspace (last s)"
  shows "strip s = s"
proof -
  have "dropWhile isspace (rev s) = rev s"
    using assms by (cases s rule: rev_cases) auto
  then show ?thesis using assms by (simp add: strip_def lstrip_id rstrip_def)
qed

lemma create_collection_name_format:
  "create_collection_name d p = py ''Collection_'' @ str_int d @ py ''_'' @ str_int p"
proof -
  let ?s = "py ''Collection_'' @ str_int d @ py ''_'' @ str_int p"
  have "last ?s = last (str_int p)" using str_int_nonempty by simp
  then have l: "\<not> isspace (last ?s)" using str_int_last by simp
  have h: "\<not> isspace (hd ?s)" by (simp add: py_def isspace_def)
  have ne: "?s \<noteq> []" by (simp add: py_def)
  show ?thesis unfolding create_collection_name_def using strip_id [OF ne h l] .
qed

lemma str_int_768: "str_int 768 = py ''768''"
  by (simp add: str_int_def str_nat.simps py_def)

lemma str_int_7: "str_int 7 = py ''7''"
  by (simp add: str_int_def str_nat.simps py_def)

text \<open>
  C7. The collection name is the word \<open>Collection\<close>, the vector size and the project id,
  joined by underscores (trimming changes nothing): size 768 and project 7 give
  \<open>Collection_768_7\<close>, and two different sizes give two different names for the same
  project.
\<close>

theorem collection_name_format:
  "create_collection_name 768 7 = py ''Collection_768_7'' \<and>
   create_collection_name d p = py ''Collection_'' @ str_int d @ py ''_'' @ str_int p \<and>
   (d \<noteq> d' \<longrightarrow> create_collection_name d p \<noteq> create_collection_name d' p)"
proof -
  have "create_collection_name 768 7 = py ''Collection_768_7''"
    by (simp add: create_collection_name_format str_int_768 str_int_7) (simp add: py_def)
  moreover have "d \<noteq> d' \<longrightarrow> create_collection_name d p \<noteq> create_collection_name d' p"
    using str_int_inj by (auto simp: create_collection_name_format)
  ultimately show ?thesis using create_collection_name_format by simp
qed

theorem collection_name_format_witness:
  "(768::int) \<noteq> 1024 \<and> create_collection_name 768 7 \<noteq> create_collection_name 1024 7"
proof -
  have "(768::int) \<noteq> 1024" by simp
  with collection_name_format [of 768 7 1024] show ?thesis by blast
qed

section \<open>Properties of the vector stores\<close>

subsection \<open>Collection lifecycle\<close>

lemma qdrant_create_collection_no_effect:
  "qdrant_create_collection p c collection_name es do_reset = (c, False)"
  by (simp add: qdrant_create_collection_def coroutine_truthy_def)

lemma pg_create_collection_reset:
  "pg_create_collection db collection_name es True =
     (db(collection_name \<mapsto>
         \<lparr>table_rows = [], next_id = 1, vector_dim = es, vector_index = None\<rparr>), True)"
  by (simp add: pg_create_collection_def pg_delete_collection_def pg_is_collection_existed_def)

lemma pg_reset_record_count:
  "pg_record_count (fst (pg_create_collection db collection_name es True)) collection_name
     = Some 0"
  by (simp add: pg_create_collection_reset pg_record_count_def)

text \<open>
  C4 holds for PGVectorProvider (\<open>pg_create_collection_reset\<close>, \<open>pg_reset_record_count\<close>),
  and fails for QdrantDBProvider, whose \<open>create_collection\<close> never awaits the calls it
  makes: a collection with one point, reset with \<open>do_reset = True\<close>, is still there with
  its point, and the call returns \<open>False\<close>.
\<close>

theorem qdrant_reset_keeps_points:
  "qdrant_create_collection \<lparr>qd_default_vector_size = 1, qd_distance_method = Some COSINE\<rparr>
     [py ''c'' \<mapsto> \<lparr>qc_size = 1, qc_distance = Some COSINE,
        qc_points = [\<lparr>rec_id = Some 1, rec_vector = [1], rec_text = py ''a'', rec_metadata = MetaNone\<rparr>]\<rparr>]
     (py ''c'') 1 True
   = ([py ''c'' \<mapsto> \<lparr>qc_size = 1, qc_distance = Some COSINE,
        qc_points = [\<lparr>rec_id = Some 1, rec_vector = [1], rec_text = py ''a'', rec_metadata = MetaNone\<rparr>]\<rparr>],
      False)"
  by (simp add: qdrant_create_collection_def coroutine_truthy_def)

subsection \<open>Insertion\<close>

lemma pg_insert_many_length_mismatch:
  "length vectors \<noteq> length record_ids \<Longrightarrow>
   pg_insert_many p chunks db collection_name texts vectors md (Some record_ids) batch_size =
     (db, Inr False)"
  by (simp add: pg_insert_many_def split: option.splits)

text \<open>
  C6 holds for PGVectorProvider (\<open>pg_insert_many_length_mismatch\<close>) and fails for
  QdrantDBProvider, which has no such test: with one text, two vectors and one record id
  it uploads one record and returns \<open>True\<close>, and with no text, one vector and no record
  id it returns \<open>True\<close> without a single upload.
\<close>

theorem qdrant_insert_many_length_mismatch:
  "length [[1], [2::real]] \<noteq> length [1::int] \<and>
   qdrant_insert_many \<lparr>qd_default_vector_size = 1, qd_distance_method = Some COSINE\<rparr>
     [py ''c'' \<mapsto> \<lparr>qc_size = 1, qc_distance = Some COSINE, qc_points = []\<rparr>]
     (py ''c'') [py ''a''] [[1], [2]] None (Some [1]) 50
   = ([py ''c'' \<mapsto> \<lparr>qc_size = 1, qc_distance = Some COSINE,
         qc_points = [\<lparr>rec_id = Some 1, rec_vector = [1], rec_text = py ''a'', rec_metadata = MetaInt 0\<rparr>]\<rparr>],
      Inr True) \<and>
   length [[1::real]] \<noteq> length ([]::int list) \<and>
   qdrant_insert_many \<lparr>qd_default_vector_size = 1, qd_distance_method = Some COSINE\<rparr>
     Map.empty (py ''c'') [] [[1]] None (Some []) 50
   = (Map.empty, Inr True)"
  by (simp add: qdrant_insert_many_def batch_offsets_def batch_slice_def client_upload_records_def)

lemma pg_new_rows_append:
  "pg_new_rows k (a @ b) = pg_new_rows k a @ pg_new_rows (k + length a) b"
  by (simp add: pg_new_rows_def enumerate_append_eq)

lemma length_pg_new_rows: "length (pg_new_rows k vals) = length vals"
  by (simp add: pg_new_rows_def)

lemma pg_values_slice:
  "pg_values (batch_slice i bs texts) (batch_slice i bs vectors) (batch_slice i bs ms)
     (batch_slice i bs ids) = batch_slice i bs (pg_values texts vectors ms ids)"
  by (simp add: pg_values_def batch_slice_def take_map drop_map take_zip drop_zip)

lemma concat_batches:
  "concat (map (\<lambda>i. batch_slice i (int b) Z) (map (\<lambda>k. k * b) [0 ..< m])) = take (m * b) Z"
proof (induction m)
  case 0
  show ?case by simp
next
  case (Suc m)
  have "take (m * b + b) Z = take (m * b) Z @ take b (drop (m * b) Z)"
    by (rule take_add)
  moreover have "Suc m * b = m * b + b" by simp
  ultimately show ?case using Suc by (simp add: batch_slice_def del: mult_Suc)
qed

lemma offsets_cover:
  assumes "0 < (b::nat)"
  shows "n \<le> ((n + b - 1) div b) * b"
proof -
  have "(n + b - 1) div b * b + (n + b - 1) mod b = n + b - 1" by simp
  moreover have "(n + b - 1) mod b < b" using assms by simp
  ultimately show ?thesis by arith
qed

lemma offsets_inside:
  assumes "0 < (b::nat)" and "k < (n + b - 1) div b"
  shows "k * b < n"
proof -
  have "Suc k * b \<le> (n + b - 1) div b * b"
    using assms(2) by (intro mult_le_mono1) simp
  also have "\<dots> \<le> n + b - 1" by simp
  finally have "k * b + b \<le> n + b - 1" by simp
  then show ?thesis using assms(1) by arith
qed

lemma batches_all:
  assumes "0 < batch_size" and "length Z \<le> n"
  shows "batch_offsets n batch_size =
           Inr (map (\<lambda>k. k * nat batch_size) [0 ..< (n + nat batch_size - 1) div nat batch_size])"
    and "concat (map (\<lambda>i. batch_slice i batch_size Z)
           (map (\<lambda>k. k * nat batch_size) [0 ..< (n + nat batch_size - 1) div nat batch_size])) = Z"
proof -
  show "batch_offsets n batch_size =
           Inr (map (\<lambda>k. k * nat batch_size) [0 ..< (n + nat batch_size - 1) div nat batch_size])"
    using assms(1) by (simp add: batch_offsets_def)
  have b: "0 < nat batch_size" using assms(1) by simp
  have "int (nat batch_size) = batch_size" using assms(1) by simp
  with concat_batches [of "nat batch_size" Z "(n + nat batch_size - 1) div nat batch_size"]
  have "concat (map (\<lambda>i. batch_slice i batch_size Z)
           (map (\<lambda>k. k * nat batch_size) [0 ..< (n + nat batch_size - 1) div nat batch_size]))
        = take ((n + nat batch_size - 1) div nat batch_size * nat batch_size) Z"
    by simp
  moreover have "length Z \<le> (n + nat batch_size - 1) div nat batch_size * nat batch_size"
    using offsets_cover [OF b, of n] assms(2) by simp
  ultimately show "concat (map (\<lambda>i. batch_slice i batch_size Z)
           (map (\<lambda>k. k * nat batch_size) [0 ..< (n + nat batch_size - 1) div nat batch_size])) = Z"
    by simp
qed

lemma length_pg_values:
  "length texts = n \<Longrightarrow> length vectors = n \<Longrightarrow> length ms = n \<Longrightarrow> length ids = n \<Longrightarrow>
   length (pg_values texts vectors ms ids) = n"
  by (simp add: pg_values_def)

lemma chunk_ids_pg_values:
  "length texts = length ids \<Longrightarrow> length vectors = length ids \<Longrightarrow> length ms = length ids \<Longrightarrow>
   map row_chunk_id (pg_new_rows k (pg_values texts vectors ms ids)) = ids"
proof -
  assume l: "length texts = length ids" "length vectors = length ids" "length ms = length ids"
  have "map row_chunk_id (pg_new_rows k (pg_values texts vectors ms ids)) =
          map (\<lambda>x. snd (snd (snd (snd x)))) (enumerate k (pg_values texts vectors ms ids))"
    by (auto simp: pg_new_rows_def)
  also have "\<dots> = map (\<lambda>x. snd (snd (snd x))) (map snd (enumerate k (pg_values texts vectors ms ids)))"
    by (simp only: map_map o_def)
  also have "\<dots> = map (\<lambda>x. snd (snd (snd x))) (pg_values texts vectors ms ids)"
    by (simp only: map_snd_enumerate)
  also have "\<dots> = map (\<lambda>x. snd (snd (snd x))) (zip texts (zip vectors (zip ms ids)))"
    by (auto simp: pg_values_def)
  also have "\<dots> = map snd (map snd (map snd (zip texts (zip vectors (zip ms ids)))))"
    by simp
  also have "\<dots> = ids" using l by simp
  finally show ?thesis .
qed

lemma pg_insert_batches_rows:
  assumes "pg_insert_batches chunks t bs texts vectors ms ids offsets = Inr t'"
  shows "t' = t\<lparr>table_rows := table_rows t @
                     pg_new_rows (next_id t)
                       (concat (map (\<lambda>i. batch_slice i bs (pg_values texts vectors ms ids)) offsets)),
                  next_id := next_id t +
                     length (concat (map (\<lambda>i. batch_slice i bs (pg_values texts vectors ms ids)) offsets))\<rparr>"
  using assms
proof (induction offsets arbitrary: t)
  case Nil
  then show ?case by (simp add: pg_new_rows_def)
next
  case (Cons i offsets)
  let ?Z = "pg_values texts vectors ms ids"
  let ?t1 = "t\<lparr>table_rows := table_rows t @ pg_new_rows (next_id t) (batch_slice i bs ?Z),
               next_id := next_id t + length (batch_slice i bs ?Z)\<rparr>"
  from Cons.prems obtain t1 where
    e: "pg_execute_insert chunks t (batch_slice i bs ?Z) = Inr t1"
    and r: "pg_insert_batches chunks t1 bs texts vectors ms ids offsets = Inr t'"
    by (auto simp: pg_values_slice split: sum.splits)
  from e have t1: "t1 = ?t1"
    by (auto simp: pg_execute_insert_def split: if_splits)
  from Cons.IH [OF r] show ?case
    by (simp add: t1 pg_new_rows_append add.assoc)
qed

lemma pg_create_vector_index_rows:
  assumes "db collection_name = Some t"
  shows "\<exists>ix. fst (pg_create_vector_index p db collection_name index_type) collection_name =
           Some (t\<lparr>vector_index := ix\<rparr>)"
proof -
  show ?thesis
  proof (cases "fst (pg_create_vector_index p db collection_name index_type) = db")
    case True
    then show ?thesis using assms by (intro exI [of _ "vector_index t"]) simp
  next
    case False
    then have "fst (pg_create_vector_index p db collection_name index_type) =
                 db(collection_name \<mapsto> t\<lparr>vector_index := Some (index_type,
                      case pg_distance_method p of None \<Rightarrow> py ''None'' | Some m \<Rightarrow> m)\<rparr>)"
      using assms by (auto simp: pg_create_vector_index_def Let_def split: if_splits)
    then have "fst (pg_create_vector_index p db collection_name index_type) collection_name =
                 Some (t\<lparr>vector_index := Some (index_type,
                      case pg_distance_method p of None \<Rightarrow> py ''None'' | Some m \<Rightarrow> m)\<rparr>)"
      by simp
    then show ?thesis by blast
  qed
qed

text \<open>
  A run of \<open>insert_many\<close> that returns \<open>True\<close>, for as many texts as record ids (metadata
  absent or of that length) and a positive batch size, has appended one row per record
  id, in their order.
\<close>

lemma pg_insert_many_once:
  assumes run: "pg_insert_many p chunks db collection_name texts vectors md (Some record_ids)
                  batch_size = (db', Inr True)"
    and lt: "length texts = length record_ids"
    and lm: "md = None \<or> (\<exists>ms. md = Some ms \<and> length ms = length record_ids)"
    and bs: "0 < batch_size"
  shows "\<exists>t t'. db collection_name = Some t \<and> db' collection_name = Some t' \<and>
           map row_chunk_id (table_rows t') = map row_chunk_id (table_rows t) @ record_ids"
proof -
  let ?ms = "case md of None \<Rightarrow> replicate (length texts) MetaNone
             | Some ms \<Rightarrow> if ms = [] then replicate (length texts) MetaNone else ms"
  let ?Z = "pg_values texts vectors ?ms record_ids"
  let ?offsets = "map (\<lambda>k. k * nat batch_size)
                    [0 ..< (length texts + nat batch_size - 1) div nat batch_size]"
  from run obtain t where t: "db collection_name = Some t"
    by (cases "db collection_name") (auto simp: pg_insert_many_def)
  have lv: "length vectors = length record_ids"
    using run t by (auto simp: pg_insert_many_def split: if_splits)
  have lms: "length ?ms = length record_ids"
    using lm lt by (auto split: option.splits)
  have lZ: "length ?Z = length texts"
    using lt lv lms by (simp add: length_pg_values)
  have off: "batch_offsets (length texts) batch_size = Inr ?offsets"
    using batches_all(1) [OF bs, of ?Z "length texts"] lZ by simp
  have cat: "concat (map (\<lambda>i. batch_slice i batch_size ?Z) ?offsets) = ?Z"
    using batches_all(2) [OF bs, of ?Z "length texts"] lZ by simp
  from run t lv off obtain t1 where
    ins: "pg_insert_batches chunks t batch_size texts vectors ?ms record_ids ?offsets = Inr t1"
    and idx: "db' = fst (pg_create_vector_index p (db(collection_name \<mapsto> t1)) collection_name
                          (py ''hnsw''))"
    by (auto simp: pg_insert_many_def simp del: One_nat_def split: sum.splits prod.splits)
  have t1: "t1 = t\<lparr>table_rows := table_rows t @ pg_new_rows (next_id t) ?Z,
                    next_id := next_id t + length ?Z\<rparr>"
    using pg_insert_batches_rows [OF ins] by (simp only: cat)
  have "(db(collection_name \<mapsto> t1)) collection_name = Some t1" by simp
  from pg_create_vector_index_rows
         [where db = "db(collection_name \<mapsto> t1)" and collection_name = collection_name
            and t = t1 and p = p and index_type = "py ''hnsw''", OF this]
  obtain ix where db': "db' collection_name = Some (t1\<lparr>vector_index := ix\<rparr>)"
    using idx by auto
  have "map row_chunk_id (table_rows (t1\<lparr>vector_index := ix\<rparr>)) =
          map row_chunk_id (table_rows t) @ record_ids"
    using lt lv lms by (simp add: t1 chunk_ids_pg_values)
  with t db' show ?thesis by blast
qed

text \<open>
  Two such runs with the same arguments: the second appends the record ids once more.
\<close>

lemma pg_insert_many_twice:
  assumes "pg_insert_many p chunks db collection_name texts vectors md (Some record_ids)
             batch_size = (db1, Inr True)"
    and "pg_insert_many p chunks db1 collection_name texts vectors md (Some record_ids)
             batch_size = (db2, Inr True)"
    and "length texts = length record_ids"
    and "md = None \<or> (\<exists>ms. md = Some ms \<and> length ms = length record_ids)"
    and "0 < batch_size"
  shows "\<exists>t t2. db collection_name = Some t \<and> db2 collection_name = Some t2 \<and>
           map row_chunk_id (table_rows t2) =
             map row_chunk_id (table_rows t) @ record_ids @ record_ids \<and>
           pg_record_count db2 collection_name =
             Some (length (table_rows t) + 2 * length record_ids)"
proof -
  from pg_insert_many_once [OF assms(1) assms(3-5)]
  obtain t t1 where t: "db collection_name = Some t" and t1: "db1 collection_name = Some t1"
    and c1: "map row_chunk_id (table_rows t1) = map row_chunk_id (table_rows t) @ record_ids"
    by blast
  from pg_insert_many_once [OF assms(2) assms(3-5)] t1
  obtain t2 where t2: "db2 collection_name = Some t2"
    and c2: "map row_chunk_id (table_rows t2) = map row_chunk_id (table_rows t1) @ record_ids"
    by auto
  have c: "map row_chunk_id (table_rows t2) =
             map row_chunk_id (table_rows t) @ record_ids @ record_ids"
    using c1 c2 by simp
  have "length (map row_chunk_id (table_rows t2)) = length (table_rows t) + 2 * length record_ids"
    by (simp only: c length_append length_map)
  then have "pg_record_count db2 collection_name =
               Some (length (table_rows t) + 2 * length record_ids)"
    using t2 by (simp add: pg_record_count_def)
  with t t2 c show ?thesis by blast
qed

lemma pg_insert_one_row:
  "int (length rs) < 99 \<Longrightarrow>
   pg_insert_many \<lparr>pg_default_vector_size = 1, pg_distance_method = Some (py ''vector_cosine_ops''),
                   pg_index_threshold = 100\<rparr> {1}
     [py ''c'' \<mapsto> \<lparr>table_rows = rs, next_id = k, vector_dim = 1, vector_index = None\<rparr>]
     (py ''c'') [py ''a''] [[1]] None (Some [1]) 50
   = ([py ''c'' \<mapsto> \<lparr>table_rows = rs @ [\<lparr>row_id = k, row_text = py ''a'', row_vector = [1],
                                    row_metadata = MetaDict [], row_chunk_id = 1\<rparr>],
                         next_id = Suc k, vector_dim = 1, vector_index = None\<rparr>], Inr True)"
  by (simp add: pg_insert_many_def batch_offsets_def batch_slice_def pg_values_def
      pg_execute_insert_def pg_row_accepted_def pg_text_accepted_def py_def
      pg_new_rows_def pg_create_vector_index_def pg_is_index_existed_def)

text \<open>
  The rejections of PostgreSQL at work. A chunk id that no row of \<open>chunks\<close> has makes the
  \<open>INSERT\<close> raise and leaves the table without the row; so do a vector of another
  dimension than the table's and a chunk id beyond 32 bits. With a distance method \<open>None\<close>
  and the index threshold reached, the rows are inserted and committed, and
  \<open>CREATE INDEX\<close> then raises.
\<close>

lemma pg_insert_many_rejected:
  "snd (pg_insert_many \<lparr>pg_default_vector_size = 1, pg_distance_method = Some (py ''vector_cosine_ops''),
                   pg_index_threshold = 100\<rparr> {}
     [py ''c'' \<mapsto> \<lparr>table_rows = [], next_id = 1, vector_dim = 1, vector_index = None\<rparr>]
     (py ''c'') [py ''a''] [[1]] None (Some [1]) 50) = Inl DatabaseError"
  "pg_record_count (fst (pg_insert_many \<lparr>pg_default_vector_size = 1,
                   pg_distance_method = Some (py ''vector_cosine_ops''), pg_index_threshold = 100\<rparr> {}
     [py ''c'' \<mapsto> \<lparr>table_rows = [], next_id = 1, vector_dim = 1, vector_index = None\<rparr>]
     (py ''c'') [py ''a''] [[1]] None (Some [1]) 50)) (py ''c'') = Some 0"
  "snd (pg_insert_many \<lparr>pg_default_vector_size = 1, pg_distance_method = Some (py ''vector_cosine_ops''),
                   pg_index_threshold = 100\<rparr> {1}
     [py ''c'' \<mapsto> \<lparr>table_rows = [], next_id = 1, vector_dim = 1, vector_index = None\<rparr>]
     (py ''c'') [py ''a''] [[1, 2]] None (Some [1]) 50) = Inl DatabaseError"
  "snd (pg_insert_many \<lparr>pg_default_vector_size = 1, pg_distance_method = Some (py ''vector_cosine_ops''),
                   pg_index_threshold = 100\<rparr> {1, 4294967296}
     [py ''c'' \<mapsto> \<lparr>table_rows = [], next_id = 1, vector_dim = 1, vector_index = None\<rparr>]
     (py ''c'') [py ''a''] [[1]] None (Some [4294967296]) 50) = Inl DatabaseError"
  "pg_insert_many \<lparr>pg_default_vector_size = 1, pg_distance_method = None,
                   pg_index_threshold = 1\<rparr> {1}
     [py ''c'' \<mapsto> \<lparr>table_rows = [], next_id = 1, vector_dim = 1, vector_index = None\<rparr>]
     (py ''c'') [py ''a''] [[1]] None (Some [1]) 50
   = ([py ''c'' \<mapsto> \<lparr>table_rows = [\<lparr>row_id = 1, row_text = py ''a'', row_vector = [1],
                                    row_metadata = MetaDict [], row_chunk_id = 1\<rparr>],
                         next_id = 2, vector_dim = 1, vector_index = None\<rparr>],
      Inl DatabaseError)"
  by (simp_all add: pg_insert_many_def batch_offsets_def batch_slice_def pg_values_def
      pg_execute_insert_def pg_row_accepted_def pg_text_accepted_def py_def pg_record_count_def
      pg_new_rows_def pg_create_vector_index_def pg_is_index_existed_def pg_index_accepted_def
      numeral_2_eq_2)

text \<open>
  The sibling: QdrantDBProvider stores a record under its record id, so the same run done
  twice on an existing collection leaves one point.
\<close>

lemma qdrant_insert_many_twice_one_point:
  "qdrant_insert_many \<lparr>qd_default_vector_size = 1, qd_distance_method = Some COSINE\<rparr>
     (fst (qdrant_insert_many \<lparr>qd_default_vector_size = 1, qd_distance_method = Some COSINE\<rparr>
        [py ''c'' \<mapsto> \<lparr>qc_size = 1, qc_distance = Some COSINE, qc_points = []\<rparr>]
        (py ''c'') [py ''a''] [[1]] None (Some [1]) 50))
     (py ''c'') [py ''a''] [[1]] None (Some [1]) 50
   = ([py ''c'' \<mapsto> \<lparr>qc_size = 1, qc_distance = Some COSINE,
         qc_points = [\<lparr>rec_id = Some 1, rec_vector = [1], rec_text = py ''a'', rec_metadata = MetaInt 0\<rparr>]\<rparr>],
      Inr True)"
  by (simp add: qdrant_insert_many_def batch_offsets_def batch_slice_def client_upload_records_def)

text \<open>
  Without record ids, the first record of QdrantDBProvider's \<open>insert_many\<close> fails its
  validation, outside the \<open>try\<close>: the exception leaves the method.
\<close>

lemma qdrant_insert_many_without_ids:
  "qdrant_insert_many \<lparr>qd_default_vector_size = 1, qd_distance_method = Some COSINE\<rparr>
     [py ''c'' \<mapsto> \<lparr>qc_size = 1, qc_distance = Some COSINE, qc_points = []\<rparr>]
     (py ''c'') [py ''a''] [[1]] None None 50
   = ([py ''c'' \<mapsto> \<lparr>qc_size = 1, qc_distance = Some COSINE, qc_points = []\<rparr>],
      Inl ValidationError)"
  by (simp add: qdrant_insert_many_def batch_offsets_def batch_slice_def)

text \<open>
  C5 fails for PGVectorProvider. The table of a collection has the serial \<open>id\<close> as its only
  key and \<open>insert_many\<close> issues a plain \<open>INSERT\<close>: inserting the text \<open>a\<close> under record id 1
  (a chunk that exists) into an empty collection gives one row, and doing it again gives a
  second row with the same \<open>chunk_id\<close>.
\<close>

theorem pg_insert_many_twice_two_rows:
  "pg_insert_many \<lparr>pg_default_vector_size = 1, pg_distance_method = Some (py ''vector_cosine_ops''),
                   pg_index_threshold = 100\<rparr> {1}
     [py ''c'' \<mapsto> \<lparr>table_rows = [], next_id = 1, vector_dim = 1, vector_index = None\<rparr>]
     (py ''c'') [py ''a''] [[1]] None (Some [1]) 50
   = ([py ''c'' \<mapsto> \<lparr>table_rows = [\<lparr>row_id = 1, row_text = py ''a'', row_vector = [1],
                                    row_metadata = MetaDict [], row_chunk_id = 1\<rparr>],
                         next_id = 2, vector_dim = 1, vector_index = None\<rparr>], Inr True) \<and>
   pg_insert_many \<lparr>pg_default_vector_size = 1, pg_distance_method = Some (py ''vector_cosine_ops''),
                   pg_index_threshold = 100\<rparr> {1}
     [py ''c'' \<mapsto> \<lparr>table_rows = [\<lparr>row_id = 1, row_text = py ''a'', row_vector = [1],
                                    row_metadata = MetaDict [], row_chunk_id = 1\<rparr>],
                         next_id = 2, vector_dim = 1, vector_index = None\<rparr>]
     (py ''c'') [py ''a''] [[1]] None (Some [1]) 50
   = ([py ''c'' \<mapsto> \<lparr>table_rows = [\<lparr>row_id = 1, row_text = py ''a'', row_vector = [1],
                                    row_metadata = MetaDict [], row_chunk_id = 1\<rparr>,
                                   \<lparr>row_id = 2, row_text = py ''a'', row_vector = [1],
                                    row_metadata = MetaDict [], row_chunk_id = 1\<rparr>],
                         next_id = 3, vector_dim = 1, vector_index = None\<rparr>], Inr True) \<and>
   pg_record_count
     [py ''c'' \<mapsto> \<lparr>table_rows = [\<lparr>row_id = 1, row_text = py ''a'', row_vector = [1],
                                    row_metadata = MetaDict [], row_chunk_id = 1\<rparr>],
                         next_id = 2, vector_dim = 1, vector_index = None\<rparr>] (py ''c'') = Some 1 \<and>
   pg_record_count
     [py ''c'' \<mapsto> \<lparr>table_rows = [\<lparr>row_id = 1, row_text = py ''a'', row_vector = [1],
                                    row_metadata = MetaDict [], row_chunk_id = 1\<rparr>,
                                   \<lparr>row_id = 2, row_text = py ''a'', row_vector = [1],
                                    row_metadata = MetaDict [], row_chunk_id = 1\<rparr>],
                         next_id = 3, vector_dim = 1, vector_index = None\<rparr>] (py ''c'') = Some 2"
proof -
  have a: "pg_insert_many \<lparr>pg_default_vector_size = 1, pg_distance_method = Some (py ''vector_cosine_ops''),
                   pg_index_threshold = 100\<rparr> {1}
     [py ''c'' \<mapsto> \<lparr>table_rows = [], next_id = 1, vector_dim = 1, vector_index = None\<rparr>]
     (py ''c'') [py ''a''] [[1]] None (Some [1]) 50
   = ([py ''c'' \<mapsto> \<lparr>table_rows = [\<lparr>row_id = 1, row_text = py ''a'', row_vector = [1],
                                    row_metadata = MetaDict [], row_chunk_id = 1\<rparr>],
                         next_id = 2, vector_dim = 1, vector_index = None\<rparr>], Inr True)"
    using pg_insert_one_row [of "[]" 1] by (simp add: numeral_2_eq_2)
  have b: "pg_insert_many \<lparr>pg_default_vector_size = 1, pg_distance_method = Some (py ''vector_cosine_ops''),
                   pg_index_threshold = 100\<rparr> {1}
     [py ''c'' \<mapsto> \<lparr>table_rows = [\<lparr>row_id = 1, row_text = py ''a'', row_vector = [1],
                                    row_metadata = MetaDict [], row_chunk_id = 1\<rparr>],
                         next_id = 2, vector_dim = 1, vector_index = None\<rparr>]
     (py ''c'') [py ''a''] [[1]] None (Some [1]) 50
   = ([py ''c'' \<mapsto> \<lparr>table_rows = [\<lparr>row_id = 1, row_text = py ''a'', row_vector = [1],
                                    row_metadata = MetaDict [], row_chunk_id = 1\<rparr>,
                                   \<lparr>row_id = 2, row_text = py ''a'', row_vector = [1],
                                    row_metadata = MetaDict [], row_chunk_id = 1\<rparr>],
                         next_id = 3, vector_dim = 1, vector_index = None\<rparr>], Inr True)"
    using pg_insert_one_row [of "[\<lparr>row_id = 1, row_text = py ''a'', row_vector = [1],
                             row_metadata = MetaDict [], row_chunk_id = 1\<rparr>]" 2]
    by (simp add: numeral_3_eq_3)
  show ?thesis
    by (simp only: a b) (simp add: pg_record_count_def)
qed

subsection \<open>Search\<close>

lemma pg_search_missing:
  "db collection_name = None \<Longrightarrow> pg_search_by_vector sim p db collection_name vec limit = Inr PyFalse"
  by (simp add: pg_search_by_vector_def)

lemma qdrant_search_missing:
  "c collection_name = None \<Longrightarrow> qdrant_search_by_vector sim p c collection_name vec limit = Inl ValueError"
  by (simp add: qdrant_search_by_vector_def client_search_def)




section \<open>Properties of retrieval and answering\<close>

text \<open>
  Whatever \<open>search_vector_db_collection\<close> returns is \<open>False\<close> or a list with at least one
  document: the results \<open>False\<close>, \<open>None\<close> and the empty list of a store all become \<open>False\<close>.
\<close>

lemma search_vector_db_collection_results:
  "search_vector_db_collection sim ctl project_id q limit = Inr r \<Longrightarrow>
   r = PyFalse \<or> (\<exists>ds. r = Docs ds \<and> ds \<noteq> [])"
  by (cases r)
     (auto simp: search_vector_db_collection_def Let_def
           split: sum.splits option.splits list.splits if_splits)

text \<open>
  C3 holds for PGVectorProvider (\<open>pg_search_missing\<close>) and fails for QdrantDBProvider,
  whose \<open>search_by_vector\<close> does not test that the collection exists: the ValueError of
  the client leaves \<open>search_by_vector\<close> and, uncaught, \<open>search_vector_db_collection\<close>.
\<close>

theorem qdrant_search_missing_collection_raises:
  "qdrant_search_by_vector sim \<lparr>qd_default_vector_size = 768, qd_distance_method = Some COSINE\<rparr>
     Map.empty (py ''Collection_768_7'') [1] 5 = Inl ValueError \<and>
   search_vector_db_collection sim
     \<lparr>vectordb_client = Qdrant \<lparr>qd_default_vector_size = 768, qd_distance_method = Some COSINE\<rparr> Map.empty,
      generation_client = g,
      embedding_client =
        \<lparr>client = Some \<lparr>chat_completions_create = cc,
                         embeddings_create = (\<lambda>m ps. Inr (Some \<lparr>response_data = [[1]]\<rparr>))\<rparr>,
         generation_model_id = None, embedding_model_id = Some (py ''e''), embedding_size = Some 768,
         default_input_max_characters = 1000, default_generation_max_output_tokens = 1000,
         default_generation_temperature = 0\<rparr>,
      template_parser = tp\<rparr> 7 (py ''q'') 5 = Inl ValueError"
  by (simp add: qdrant_search_missing search_vector_db_collection_def embed_text_def str_truthy_def py_def)

lemma answer_rag_unpack_none:
  "answer_rag_question sim ctl project_id q limit = Inr None \<Longrightarrow>
   answer_rag sim ctl project_id q limit = Inl TypeError"
  by (simp add: answer_rag_def)

lemma answer_rag_question_nothing_retrieved:
  "search_vector_db_collection sim ctl project_id q limit = Inr PyFalse \<Longrightarrow>
   answer_rag_question sim ctl project_id q limit = Inr None"
  by (simp add: answer_rag_question_def)

text \<open>
  C8 fails. When nothing is retrieved (here: the collection of the project was never
  created), \<open>answer_rag_question\<close> returns \<open>None\<close>, and the route raises TypeError while
  unpacking it, before its own test \<open>if not answer\<close> is reached.
\<close>

theorem answer_rag_no_documents_raises:
  "search_vector_db_collection sim
     \<lparr>vectordb_client =
        PGVector \<lparr>pg_default_vector_size = 768, pg_distance_method = Some (py ''vector_cosine_ops''),
                  pg_index_threshold = 100\<rparr> Map.empty,
      generation_client = g,
      embedding_client =
        \<lparr>client = Some \<lparr>chat_completions_create = cc,
                         embeddings_create = (\<lambda>m ps. Inr (Some \<lparr>response_data = [[1]]\<rparr>))\<rparr>,
         generation_model_id = None, embedding_model_id = Some (py ''e''), embedding_size = Some 768,
         default_input_max_characters = 1000, default_generation_max_output_tokens = 1000,
         default_generation_temperature = 0\<rparr>,
      template_parser = tp\<rparr> 7 (py ''q'') 5 = Inr PyFalse \<and>
   answer_rag sim
     \<lparr>vectordb_client =
        PGVector \<lparr>pg_default_vector_size = 768, pg_distance_method = Some (py ''vector_cosine_ops''),
                  pg_index_threshold = 100\<rparr> Map.empty,
      generation_client = g,
      embedding_client =
        \<lparr>client = Some \<lparr>chat_completions_create = cc,
                         embeddings_create = (\<lambda>m ps. Inr (Some \<lparr>response_data = [[1]]\<rparr>))\<rparr>,
         generation_model_id = None, embedding_model_id = Some (py ''e''), embedding_size = Some 768,
         default_input_max_characters = 1000, default_generation_max_output_tokens = 1000,
         default_generation_temperature = 0\<rparr>,
      template_parser = tp\<rparr> 7 (py ''q'') 5 = Inl TypeError"
  by (simp add: answer_rag_def answer_rag_question_def search_vector_db_collection_def
      embed_text_def str_truthy_def pg_search_by_vector_def py_def)

text \<open>
  C9 (as stated) fails: with an initialised client and a generation model, the list the
  caller passed holds one more message after the call.
\<close>

theorem generate_text_mutation_counterexample:
  "fst (generate_text
     \<lparr>client = Some \<lparr>chat_completions_create = (\<lambda>m h k t. Inr None),
                      embeddings_create = (\<lambda>m ps. Inr None)\<rparr>,
      generation_model_id = Some (py ''gpt''), embedding_model_id = None, embedding_size = None,
      default_input_max_characters = 1000, default_generation_max_output_tokens = 1000,
      default_generation_temperature = 0\<rparr>
     (py ''hi'') [\<lparr>role = py ''system'', content = Some (py ''s'')\<rparr>] None None)
   = [\<lparr>role = py ''system'', content = Some (py ''s'')\<rparr>,
      \<lparr>role = py ''user'', content = Some (py ''hi'')\<rparr>] \<and>
   [\<lparr>role = py ''system'', content = Some (py ''s'')\<rparr>,
      \<lparr>role = py ''user'', content = Some (py ''hi'')\<rparr>]
     \<noteq> [\<lparr>role = py ''system'', content = Some (py ''s'')\<rparr>]"
  by (simp add: generate_text_def str_truthy_def construct_prompt_def py_def)

text \<open>
  C9 (as amended). \<open>generate_text\<close> appends the user-role prompt turn to the caller's own
  list: when the client is initialised and a generation model is set, the list after the
  call is the list before it followed by that one message, whatever the API call returns
  or raises; on the two early returns the list is unchanged.
\<close>

theorem generate_text_appends_to_caller_list:
  "fst (generate_text p prompt chat_history max_output_tokens temperature) =
     (if client p \<noteq> None \<and> str_truthy (generation_model_id p)
      then chat_history @ [\<lparr>role = py ''user'', content = Some prompt\<rparr>]
      else chat_history)"
  by (simp add: generate_text_def construct_prompt_def Let_def
      split: option.splits sum.splits list.splits)

theorem generate_text_appends_to_caller_list_witness:
  "fst (generate_text
     \<lparr>client = Some \<lparr>chat_completions_create = (\<lambda>m h k t. Inl ValueError),
                      embeddings_create = (\<lambda>m ps. Inr None)\<rparr>,
      generation_model_id = Some (py ''gpt''), embedding_model_id = None, embedding_size = None,
      default_input_max_characters = 1000, default_generation_max_output_tokens = 1000,
      default_generation_temperature = 0\<rparr>
     (py ''hi'') [] None None) = [\<lparr>role = py ''user'', content = Some (py ''hi'')\<rparr>] \<and>
   fst (generate_text
     \<lparr>client = None,
      generation_model_id = Some (py ''gpt''), embedding_model_id = None, embedding_size = None,
      default_input_max_characters = 1000, default_generation_max_output_tokens = 1000,
      default_generation_temperature = 0\<rparr>
     (py ''hi'') [] None None) = []"
  using generate_text_appends_to_caller_list
          [of "\<lparr>client = Some \<lparr>chat_completions_create = (\<lambda>m h k t. Inl ValueError),
                      embeddings_create = (\<lambda>m ps. Inr None)\<rparr>,
      generation_model_id = Some (py ''gpt''), embedding_model_id = None, embedding_size = None,
      default_input_max_characters = 1000, default_generation_max_output_tokens = 1000,
      default_generation_temperature = 0\<rparr>" "py ''hi''" "[]" None None]
        generate_text_appends_to_caller_list
          [of "\<lparr>client = None,
      generation_model_id = Some (py ''gpt''), embedding_model_id = None, embedding_size = None,
      default_input_max_characters = 1000, default_generation_max_output_tokens = 1000,
      default_generation_temperature = 0\<rparr>" "py ''hi''" "[]" None None]
  by (simp add: str_truthy_def py_def)

end
